theory Spec2Isabelle
  imports Main
begin

section \<open>JavaScript values and string primitives\<close>

text \<open>
  A JavaScript string is modelled as a \<^typ>\<open>string\<close>; one \<^typ>\<open>char\<close> stands for one
  code unit below 256 (so \<open>CHR 0xD3\<close> is the capital O with acute accent of the
  receipt header). A value that may be \<open>undefined\<close> is an \<open>option\<close>.
\<close>

definition at :: "'a list \<Rightarrow> nat \<Rightarrow> 'a option" where
  \<comment> \<open>\<open>xs[i]\<close>: reading past the end of an array gives \<open>undefined\<close>.\<close>
  "at xs i = (if i < length xs then Some (xs ! i) else None)"

definition String :: "string option \<Rightarrow> string" where
  \<comment> \<open>The coercion of template literals and of \<open>RegExp.exec\<close>/\<open>test\<close> arguments.\<close>
  "String v = (case v of None \<Rightarrow> ''undefined'' | Some s \<Rightarrow> s)"

definition isDigit :: "char \<Rightarrow> bool" where
  \<comment> \<open>The class \<open>\d\<close>.\<close>
  "isDigit c = (c \<in> set ''0123456789'')"

definition isWordChar :: "char \<Rightarrow> bool" where
  \<comment> \<open>The class \<open>\w\<close>.\<close>
  "isWordChar c =
     (c \<in> set ''abcdefghijklmnopqrstuvwxyzABCDEFGHIJKLMNOPQRSTUVWXYZ0123456789_'')"

definition isLineTerminator :: "char \<Rightarrow> bool" where
  \<comment> \<open>What \<open>.\<close> refuses (among the code units below 256).\<close>
  "isLineTerminator c = (c = CHR 0x0A \<or> c = CHR 0x0D)"

definition isWhiteSpace :: "char \<Rightarrow> bool" where
  \<comment> \<open>What \<open>trim\<close> strips (among the code units below 256).\<close>
  "isWhiteSpace c =
     (c \<in> {CHR 0x09, CHR 0x0A, CHR 0x0B, CHR 0x0C, CHR 0x0D, CHR 0x20, CHR 0xA0})"

definition trim :: "string \<Rightarrow> string" where
  "trim s = rev (dropWhile isWhiteSpace (rev (dropWhile isWhiteSpace s)))"

fun stripPrefix :: "string \<Rightarrow> string \<Rightarrow> string option" where
  \<comment> \<open>A literal at the start of the text; the rest of the text when it is there.\<close>
  "stripPrefix [] s = Some s"
| "stripPrefix (p # ps) [] = None"
| "stripPrefix (p # ps) (c # cs) = (if p = c then stripPrefix ps cs else None)"

definition startsWith :: "string \<Rightarrow> string \<Rightarrow> bool" where
  "startsWith s p = (stripPrefix p s \<noteq> None)"

definition endsWith :: "string \<Rightarrow> string \<Rightarrow> bool" where
  "endsWith s p = startsWith (rev s) (rev p)"

fun includesStr :: "string \<Rightarrow> string \<Rightarrow> bool" where
  \<comment> \<open>\<open>s.includes(p)\<close>: \<open>p\<close> occurs somewhere in \<open>s\<close>.\<close>
  "includesStr [] p = (p = [])"
| "includesStr (c # cs) p = (startsWith (c # cs) p \<or> includesStr cs p)"

fun replace :: "string \<Rightarrow> string \<Rightarrow> string \<Rightarrow> string" where
  \<comment> \<open>\<open>s.replace(p, r)\<close> with a string pattern: the first occurrence only.\<close>
  "replace [] p r = (if p = [] then r else [])"
| "replace (c # cs) p r =
     (case stripPrefix p (c # cs) of
        Some rest \<Rightarrow> r @ rest
      | None \<Rightarrow> c # replace cs p r)"


definition digitValue :: "char \<Rightarrow> int" where
  "digitValue c =
     (if isDigit c then int (of_char c) - 48
      else if c \<in> set ''abcdef'' then int (of_char c) - 87
      else int (of_char c) - 55)"

definition isRadixDigit :: "int \<Rightarrow> char \<Rightarrow> bool" where
  "isRadixDigit radix c =
     (isDigit c \<or> (radix = 16 \<and> c \<in> set ''abcdefABCDEF''))"

definition parseInt :: "string \<Rightarrow> int option" where
  \<comment> \<open>\<open>parseInt(s)\<close> with no radix: white space, a sign, an optional \<open>0x\<close>, then the
      longest run of digits; \<open>None\<close> is \<open>NaN\<close>. The value is the mathematical integer,
      which is the JavaScript number only below \<open>2^53\<close> in magnitude: the parsers below
      apply it to the four digits of a year, and to any other text they apply the
      built-in function, which they take as a parameter.\<close>
  "parseInt s =
     (let s1 = dropWhile isWhiteSpace s;
          sign = (if startsWith s1 ''-'' then - 1 else 1);
          s2 = (if startsWith s1 ''-'' \<or> startsWith s1 ''+'' then tl s1 else s1);
          hex = (startsWith s2 ''0x'' \<or> startsWith s2 ''0X'');
          radix = (if hex then 16 else 10);
          s3 = (if hex then drop 2 s2 else s2);
          ds = takeWhile (isRadixDigit radix) s3
      in if ds = [] then None
         else Some (sign * foldl (\<lambda>a d. a * radix + digitValue d) 0 ds))"

section \<open>Fetched content, errors and the logging collaborator\<close>

datatype content = Text string | Tokens "string list"

text \<open>
  One constructor for each \<open>throw\<close> of the two parsers, holding the values the message
  interpolates; \<open>Rejected\<close> is a failure of the network or of a collaborator
  (\<open>$.ajax\<close>, \<open>pdfjsLib\<close>, \<open>utils\<close>), \<open>TypeError\<close> a method call on \<open>undefined\<close>.
\<close>

datatype error =
    Rejected string
  | TypeError
  | InvalidAjaxContents content
  | UnexpectedPageContents nat content
  | InvalidPdfContents nat content
  | StudentIdAndNameNotParsed string content
  | CourseCodeNotParsed string content
  | ClassTimeNotParsed string content
  | CourseTextNotParsed string
  | HistoryRowNotParsed string
  | LoggedOutError string
  | Error string
  | SiteClassTimeNotParsed string
  | SurveyTypeNotParsed string
  | SecondOptionNotParsed string
  | StudentIdNotFound content

type_synonym logMessage = "string \<times> bool \<times> string"

definition trackError ::
  "(error \<Rightarrow> string) \<Rightarrow> error \<Rightarrow> string \<Rightarrow> logMessage list \<Rightarrow> logMessage list" where
  \<comment> \<open>\<open>apiConnector.logMessage(methodName, true, utils.stringifyError(error))\<close>; the log
      is the list of the calls made so far. The line written to the console is left
      out.\<close>
  "trackError stringifyError e methodName log = log @ [(methodName, True, stringifyError e)]"

section \<open>Promises and the fetch cache\<close>

text \<open>
  A settled promise is a sum: \<open>Inl\<close> the rejection, \<open>Inr\<close> the value. A \<open>then\<close> callback
  that throws rejects the promise it returns.
\<close>

definition thenP :: "error + 'a \<Rightarrow> ('a \<Rightarrow> error + 'b) \<Rightarrow> error + 'b" where
  "thenP p f = (case p of Inl e \<Rightarrow> Inl e | Inr v \<Rightarrow> f v)"

text \<open>
  The state of one parser: the cache object \<open>CACHED_PAGE_CONTENTS\<close>, the urls that the
  fetch functions of the cache have requested from the network (in order), and the calls of
  \<open>apiConnector.logMessage\<close>. The urls are the paths of the sites, none of which is the
  name of a property that the cache object inherits.
\<close>

record 'c state =
  CACHED_PAGE_CONTENTS :: "string \<rightharpoonup> 'c"
  requests :: "string list"
  logged :: "logMessage list"

definition catchTrack ::
  "(error \<Rightarrow> string) \<Rightarrow> string \<Rightarrow> error + 'a \<Rightarrow> 'c state \<Rightarrow> (error + 'a) \<times> 'c state" where
  \<comment> \<open>\<open>.catch(e => { trackError(e, methodName); throw e; })\<close>\<close>
  "catchTrack stringifyError methodName p st =
     (case p of
        Inl e \<Rightarrow> (Inl e, st\<lparr>logged := trackError stringifyError e methodName (logged st)\<rparr>)
      | Inr v \<Rightarrow> (Inr v, st))"

definition truthy :: "content \<Rightarrow> bool" where
  \<comment> \<open>The empty string is falsy; every array is truthy.\<close>
  "truthy c = (case c of Text s \<Rightarrow> s \<noteq> [] | Tokens ts \<Rightarrow> True)"

definition cached :: "content state \<Rightarrow> string \<Rightarrow> content option" where
  \<comment> \<open>\<open>if (CACHED_PAGE_CONTENTS[url])\<close>: the entry, when there is one and it is truthy.\<close>
  "cached st url =
     (case CACHED_PAGE_CONTENTS st url of
        None \<Rightarrow> None
      | Some c \<Rightarrow> if truthy c then Some c else None)"

definition fetchPageContents ::
  "(string \<Rightarrow> error + string) \<Rightarrow> string \<Rightarrow> content state \<Rightarrow> (error + content) \<times> content state" where
  \<comment> \<open>\<open>ajax\<close> is \<open>$.ajax\<close>: what the network answers to a request for the url.\<close>
  "fetchPageContents ajax url st =
     (case cached st url of
        Some c \<Rightarrow> (Inr c, st)
      | None \<Rightarrow>
          (let st' = st\<lparr>requests := requests st @ [url]\<rparr>
           in case ajax url of
                Inl e \<Rightarrow> (Inl e, st')
              | Inr responseText \<Rightarrow>
                  (Inr (Text responseText),
                   st'\<lparr>CACHED_PAGE_CONTENTS :=
                         (CACHED_PAGE_CONTENTS st')(url \<mapsto> Text responseText)\<rparr>)))"

definition fetchPdfContents ::
  "(string \<Rightarrow> error + string list) \<Rightarrow> string \<Rightarrow> content state
     \<Rightarrow> (error + content) \<times> content state" where
  \<comment> \<open>\<open>getDocument\<close> is \<open>pdfjsLib.getDocument\<close> followed by the text items of every
      page, flattened.\<close>
  "fetchPdfContents getDocument url st =
     (case cached st url of
        Some c \<Rightarrow> (Inr c, st)
      | None \<Rightarrow>
          (let st' = st\<lparr>requests := requests st @ [url]\<rparr>
           in case getDocument url of
                Inl e \<Rightarrow> (Inl e, st')
              | Inr contents \<Rightarrow>
                  (Inr (Tokens contents),
                   st'\<lparr>CACHED_PAGE_CONTENTS :=
                         (CACHED_PAGE_CONTENTS st')(url \<mapsto> Tokens contents)\<rparr>)))"

section \<open>The transcript parser: class schedules\<close>

record 'sched classSchedule =
  year :: "int option"
  quarter :: string
  courseName :: "string option"
  classCode :: string
  courseCode :: string
  branch :: "string option"
  schedules :: "'sched option"

fun validateExpectedContents :: "string list \<Rightarrow> nat \<Rightarrow> string list \<Rightarrow> error + nat" where
  \<comment> \<open>\<open>expectedContents.forEach(...)\<close> over the cursor \<open>i\<close>: the new cursor, or the
      error of the first token that differs.\<close>
  "validateExpectedContents contents i [] = Inr i"
| "validateExpectedContents contents i (expectedContent # rest) =
     (if at contents i \<noteq> Some expectedContent then Inl (InvalidPdfContents i (Tokens contents))
      else validateExpectedContents contents (Suc i) rest)"

fun eatDigits :: "nat \<Rightarrow> string \<Rightarrow> string option" where
  \<comment> \<open>\<open>\d{n}\<close> at the start of the text.\<close>
  "eatDigits 0 s = Some s"
| "eatDigits (Suc n) [] = None"
| "eatDigits (Suc n) (c # cs) = (if isDigit c then eatDigits n cs else None)"

definition studentIdAndNameRegex :: "string \<Rightarrow> bool" where
  \<comment> \<open>\<open>/^(\d{2,3}\.\d{3}-\d?) (.*)$/\<close>. Each quantifier is followed by a character
      outside its class, so the greedy choice is the only one that can match.\<close>
  "studentIdAndNameRegex s =
     (case (case Option.bind (eatDigits 3 s) (stripPrefix ''.'') of
              Some r \<Rightarrow> Some r
            | None \<Rightarrow> Option.bind (eatDigits 2 s) (stripPrefix ''.'')) of
        None \<Rightarrow> False
      | Some r \<Rightarrow>
          (case Option.bind (eatDigits 3 r) (stripPrefix ''-'') of
             None \<Rightarrow> False
           | Some r' \<Rightarrow>
               (case (case Option.bind (eatDigits 1 r') (stripPrefix '' '') of
                        Some t \<Rightarrow> Some t
                      | None \<Rightarrow> stripPrefix '' '' r') of
                  None \<Rightarrow> False
                | Some name \<Rightarrow> \<not> list_ex isLineTerminator name)))"

definition courseCodeRegex :: "string \<Rightarrow> bool" where
  \<comment> \<open>\<open>/^\d{6}$/\<close>\<close>
  "courseCodeRegex s = (eatDigits 6 s = Some [])"

definition yearAndQuarterRegex :: "string \<Rightarrow> (string \<times> string option \<times> string) option" where
  \<comment> \<open>\<open>/^((1|2)(?:er|do) Cuat|Anual) (\d{4})$/\<close>: the groups 1, 2 and 3 of a match.\<close>
  "yearAndQuarterRegex s =
     (let term =
        (if (startsWith s ''1'' \<or> startsWith s ''2'')
            \<and> (startsWith (drop 1 s) ''er'' \<or> startsWith (drop 1 s) ''do'')
            \<and> startsWith (drop 3 s) '' Cuat''
         then Some (take 8 s, Some (take 1 s), drop 8 s)
         else if startsWith s ''Anual'' then Some (''Anual'', None, drop 5 s)
         else None)
      in case term of
           None \<Rightarrow> None
         | Some (g1, g2, r) \<Rightarrow>
             (case stripPrefix '' '' r of
                None \<Rightarrow> None
              | Some r' \<Rightarrow> if eatDigits 4 r' = Some [] then Some (g1, g2, r') else None))"

definition undefinedSchedules :: "string list" where
  "undefinedSchedules = [''Do(m)0:0'', ''Do(t)0:0'', ''Do(n)0:0'', ''Sin definir'']"

text \<open>
  One turn of the \<open>while\<close> loop of \<open>getClassSchedules\<close> reads a record from the cursor
  \<open>i\<close>. Its three blocks are the next three definitions, each returning what it read and
  the cursor after it; \<open>toUpperCase\<close> is the string method and \<open>getSchedulesFromString\<close>
  the function of \<open>utils\<close>.
\<close>

definition readCourseName ::
  "string list \<Rightarrow> nat
     \<Rightarrow> error + (string option \<times> (string \<times> string option \<times> string) \<times> nat)" where
  \<comment> \<open>\<open>courseName\<close> and \<open>yearAndQuarter\<close>: the name, the groups of the period and the
      cursor. A name split into two rows is joined and the period read one token later.\<close>
  "readCourseName contents i =
     (let name = at contents i;
          yearAndQuarter = at contents (i + 1)
      in case yearAndQuarterRegex (String yearAndQuarter) of
           Some groups \<Rightarrow> Inr (name, groups, i + 2)
         | None \<Rightarrow>
             (let name = Some (String name @ '' '' @ String yearAndQuarter);
                  yearAndQuarter = at contents (i + 2)
              in case yearAndQuarterRegex (String yearAndQuarter) of
                   Some groups \<Rightarrow> Inr (name, groups, i + 3)
                 | None \<Rightarrow>
                     Inl (ClassTimeNotParsed (String yearAndQuarter) (Tokens contents))))"

definition readBranch ::
  "(string \<Rightarrow> string) \<Rightarrow> string list \<Rightarrow> nat \<Rightarrow> error + (string option \<times> nat)" where
  \<comment> \<open>\<open>branch\<close>: \<open>None\<close> is \<open>null\<close>.\<close>
  "readBranch toUpperCase contents i =
     (case at contents i of
        None \<Rightarrow> Inl TypeError
      | Some branchStr \<Rightarrow>
          (let b = replace (replace (toUpperCase branchStr) '' '' ''_'')
                     ''CAMPUS_VIRTUAL'' ''AULA_VIRTUAL''
           in if b = ''ESCUELA''
              then (case validateExpectedContents contents (i + 1)
                           [''T'' @ [CHR 0xE9] @ ''cnica -''] of
                      Inl e \<Rightarrow> Inl e
                    | Inr i' \<Rightarrow> Inr (Some (''PI'' @ [CHR 0xD1] @ ''ERO''), i'))
              else if b = ''SIN_DESIGNAR'' then Inr (None, i + 1)
              else Inr (Some b, i + 1)))"

definition readSchedules ::
  "(string option \<Rightarrow> error + 'sched option) \<Rightarrow> string list \<Rightarrow> nat
     \<Rightarrow> error + ('sched option \<times> nat)" where
  \<comment> \<open>\<open>schedulesStr\<close> and \<open>schedules\<close>: \<open>None\<close> is \<open>null\<close>.\<close>
  "readSchedules getSchedulesFromString contents i =
     (let schedulesStr = at contents i
      in if schedulesStr \<in> set (map Some undefinedSchedules) then Inr (None, i + 1)
         else (case getSchedulesFromString schedulesStr of
                 Inl e \<Rightarrow> Inl e
               | Inr sch \<Rightarrow> Inr (sch, i + 1)))"

definition parseClassSchedule ::
  "(string \<Rightarrow> string) \<Rightarrow> (string option \<Rightarrow> error + 'sched option) \<Rightarrow> string list \<Rightarrow> nat
     \<Rightarrow> error + ('sched classSchedule \<times> nat)" where
  \<comment> \<open>The record pushed and the cursor after it. A token that is \<open>undefined\<close> fails the
      course code test as the text \<open>undefined\<close>; the class room number is skipped
      unread.\<close>
  "parseClassSchedule toUpperCase getSchedulesFromString contents i =
     (case at contents i of
        None \<Rightarrow> Inl (CourseCodeNotParsed (String None) (Tokens contents))
      | Some code \<Rightarrow>
          if \<not> courseCodeRegex code
          then Inl (CourseCodeNotParsed code (Tokens contents))
          else
            (case readCourseName contents (i + 1) of
               Inl e \<Rightarrow> Inl e
             | Inr (name, (g1, g2, g3), i1) \<Rightarrow>
                 (case at contents i1 of
                    None \<Rightarrow> Inl TypeError
                  | Some classCodeStr \<Rightarrow>
                      (case readBranch toUpperCase contents (i1 + 1) of
                         Inl e \<Rightarrow> Inl e
                       | Inr (b, i2) \<Rightarrow>
                           (case readSchedules getSchedulesFromString contents (i2 + 1) of
                              Inl e \<Rightarrow> Inl e
                            | Inr (sch, i3) \<Rightarrow>
                                Inr (\<lparr> year = parseInt g3,
                                       quarter = (if g1 = ''Anual'' then ''A''
                                                  else String g2 @ ''C''),
                                       courseName = name,
                                       classCode = toUpperCase classCodeStr,
                                       courseCode = code,
                                       branch = b,
                                       schedules = sch \<rparr>, i3))))))"

lemma readCourseName_advances:
  "readCourseName contents i = Inr (name, groups, j) \<Longrightarrow> j = i + 2 \<or> j = i + 3"
  by (auto simp: readCourseName_def Let_def split: option.splits)

lemma readBranch_advances:
  "readBranch toUpperCase contents i = Inr (b, j) \<Longrightarrow> j = i + 1 \<or> j = i + 2"
  by (auto simp: readBranch_def Let_def split: option.splits if_splits sum.splits)

lemma readSchedules_advances:
  "readSchedules getSchedulesFromString contents i = Inr (sch, j) \<Longrightarrow> j = i + 1"
  by (auto simp: readSchedules_def Let_def split: if_splits sum.splits)

lemma parseClassSchedule_Inr:
  assumes "parseClassSchedule toUpperCase getSchedulesFromString contents i = Inr (r, j)"
  obtains code name g1 g2 g3 i1 classCodeStr b i2 sch where
    "at contents i = Some code" "courseCodeRegex code"
    "readCourseName contents (i + 1) = Inr (name, (g1, g2, g3), i1)"
    "at contents i1 = Some classCodeStr"
    "readBranch toUpperCase contents (i1 + 1) = Inr (b, i2)"
    "readSchedules getSchedulesFromString contents (i2 + 1) = Inr (sch, j)"
    "r = \<lparr> year = parseInt g3,
           quarter = (if g1 = ''Anual'' then ''A'' else String g2 @ ''C''),
           courseName = name, classCode = toUpperCase classCodeStr, courseCode = code,
           branch = b, schedules = sch \<rparr>"
  using assms unfolding parseClassSchedule_def
  by (simp split: option.splits if_splits sum.splits prod.splits)

lemma parseClassSchedule_advances:
  assumes "parseClassSchedule toUpperCase getSchedulesFromString contents i = Inr (r, j)"
  shows "i < length contents \<and> i < j"
proof -
  from assms obtain code name g i1 b i2 sch where
    c: "at contents i = Some code"
    and n: "readCourseName contents (i + 1) = Inr (name, g, i1)"
    and b: "readBranch toUpperCase contents (i1 + 1) = Inr (b, i2)"
    and s: "readSchedules getSchedulesFromString contents (i2 + 1) = Inr (sch, j)"
    by (auto elim!: parseClassSchedule_Inr)
  from c have "i < length contents"
    by (simp add: at_def split: if_splits)
  moreover have "i < j"
    using readCourseName_advances[OF n] readBranch_advances[OF b] readSchedules_advances[OF s]
    by arith
  ultimately show ?thesis by simp
qed

function classSchedulesLoop ::
  "(string \<Rightarrow> string) \<Rightarrow> (string option \<Rightarrow> error + 'sched option) \<Rightarrow> string list \<Rightarrow> nat
     \<Rightarrow> 'sched classSchedule list \<Rightarrow> error + 'sched classSchedule list" where
  \<comment> \<open>\<open>while (contents[i] !== "Firma y Sello Departamento") { ... classSchedules.push(...) }\<close>\<close>
  "classSchedulesLoop toUpperCase getSchedulesFromString contents i classSchedules =
     (if at contents i = Some ''Firma y Sello Departamento'' then Inr classSchedules
      else (case parseClassSchedule toUpperCase getSchedulesFromString contents i of
              Inl e \<Rightarrow> Inl e
            | Inr (r, j) \<Rightarrow>
                classSchedulesLoop toUpperCase getSchedulesFromString contents j
                  (classSchedules @ [r])))"
  by pat_completeness auto
termination
proof (relation "measure (\<lambda>(u, g, contents, i, acc). length contents - i)")
  show "wf (measure (\<lambda>(u, g, contents, i, acc). length (contents :: string list) - i))"
    by simp
next
  fix toUpperCase :: "string \<Rightarrow> string"
    and getSchedulesFromString :: "string option \<Rightarrow> error + 'sched option"
    and contents :: "string list" and i :: nat
    and classSchedules :: "'sched classSchedule list"
    and x2 :: "'sched classSchedule \<times> nat" and r j
  assume "parseClassSchedule toUpperCase getSchedulesFromString contents i = Inr x2"
    and "(r, j) = x2"
  then have "parseClassSchedule toUpperCase getSchedulesFromString contents i = Inr (r, j)"
    by simp
  from parseClassSchedule_advances[OF this]
  have "length contents - j < length contents - i"
    by arith
  then show "((toUpperCase, getSchedulesFromString, contents, j, classSchedules @ [r]),
         (toUpperCase, getSchedulesFromString, contents, i, classSchedules))
        \<in> measure (\<lambda>(u, g, contents, i, acc). length contents - i)"
    by simp
qed

definition receiptHeader :: "string list" where
  "receiptHeader = ['''', ''COMPROBANTE DE INSCRIPCI'' @ [CHR 0xD3] @ ''N A CURSADA'']"

definition columnHeader :: "string list" where
  "columnHeader =
     [''C'' @ [CHR 0xF3] @ ''digo'', ''Actividad'', ''Per'' @ [CHR 0xED] @ ''odo'',
      ''Comisi'' @ [CHR 0xF3] @ ''n'', ''Ubicaci'' @ [CHR 0xF3] @ ''n'', ''Aula'', ''Horario'']"

definition getClassSchedules_then ::
  "(string \<Rightarrow> string) \<Rightarrow> (string option \<Rightarrow> error + 'sched option) \<Rightarrow> content
     \<Rightarrow> error + 'sched classSchedule list" where
  \<comment> \<open>The \<open>then\<close> callback of \<open>getClassSchedules\<close>. A cached string in place of the token
      array has no element equal to the empty string, so the first check throws.\<close>
  "getClassSchedules_then toUpperCase getSchedulesFromString c =
     (case c of
        Text s \<Rightarrow> Inl (InvalidPdfContents 0 (Text s))
      | Tokens contents \<Rightarrow>
          if length contents = 1 \<and> at contents 0 = Some '''' then Inr []
          else
            (case validateExpectedContents contents 0 receiptHeader of
               Inl e \<Rightarrow> Inl e
             | Inr i \<Rightarrow>
                 let studentIdAndName = at contents i; i = i + 1
                 in if \<not> studentIdAndNameRegex (String studentIdAndName)
                    then Inl (StudentIdAndNameNotParsed (String studentIdAndName) (Tokens contents))
                    else
                      (case validateExpectedContents contents i columnHeader of
                         Inl e \<Rightarrow> Inl e
                       | Inr i \<Rightarrow>
                           classSchedulesLoop toUpperCase getSchedulesFromString contents i [])))"

definition getClassSchedules ::
  "(string \<Rightarrow> string) \<Rightarrow> (string option \<Rightarrow> error + 'sched option) \<Rightarrow> (error \<Rightarrow> string)
     \<Rightarrow> (string \<Rightarrow> error + string list) \<Rightarrow> content state
     \<Rightarrow> (error + 'sched classSchedule list) \<times> content state" where
  "getClassSchedules toUpperCase getSchedulesFromString stringifyError getDocument st =
     (case fetchPdfContents getDocument ''/autogestion/grado/calendario/descargar_comprobante'' st of
        (p, st') \<Rightarrow>
          catchTrack stringifyError ''getClassSchedules''
            (thenP p (getClassSchedules_then toUpperCase getSchedulesFromString)) st')"

section \<open>The transcript parser: academic history\<close>


fun mapThrowing :: "('a \<Rightarrow> error + 'b) \<Rightarrow> 'a list \<Rightarrow> error + 'b list" where
  \<comment> \<open>\<open>xs.map(f)\<close> with a callback that can throw: the first throw ends the map.\<close>
  "mapThrowing f [] = Inr []"
| "mapThrowing f (x # xs) =
     (case f x of
        Inl e \<Rightarrow> Inl e
      | Inr y \<Rightarrow> (case mapThrowing f xs of Inl e \<Rightarrow> Inl e | Inr ys \<Rightarrow> Inr (y # ys)))"

definition fetchAjaxPageContents ::
  "(content \<Rightarrow> error + (string \<times> string)) \<Rightarrow> (string \<Rightarrow> error + (string \<times> string) list)
     \<Rightarrow> (string \<Rightarrow> error + string) \<Rightarrow> string \<Rightarrow> string \<Rightarrow> content state
     \<Rightarrow> (error + string) \<times> content state" where
  \<comment> \<open>\<open>JSON_parse\<close> gives the fields \<open>cod\<close> (a string) and \<open>cont\<close> of the response; \<open>arrivals\<close> gives,
      for every \<open>kernel.renderer.on_arrival\<close> script of \<open>cont\<close>, its \<open>info.id\<close> and its
      \<open>content\<close>. Both are collaborators (\<open>JSON\<close>, jQuery) and can throw.\<close>
  "fetchAjaxPageContents JSON_parse arrivals ajax url infoId st =
     (case fetchPageContents ajax url st of
        (p, st') \<Rightarrow>
          (thenP p (\<lambda>responseText.
             case JSON_parse responseText of
               Inl e \<Rightarrow> Inl e
             | Inr (cod, cont) \<Rightarrow>
                 if cod \<noteq> ''1'' then Inl (InvalidAjaxContents responseText)
                 else
                   (case arrivals cont of
                      Inl e \<Rightarrow> Inl e
                    | Inr datas \<Rightarrow>
                        (let contents = map snd (filter (\<lambda>data. fst data = infoId) datas)
                         in if length contents \<noteq> 1
                            then Inl (UnexpectedPageContents (length contents) responseText)
                            else Inr (hd contents)))), st'))"

record 'date historyEntry =
  entryCourseCode :: string
  entryType :: "string option"
  entryDate :: 'date

definition typesMap :: "(string \<times> string) list" where
  \<comment> \<open>The keys in the order of the object literal, which is the order of the
      alternatives of the row pattern.\<close>
  "typesMap =
     [(''En curso'', ''SIGNED''),
      (''Regularidad'', ''SIGNED''),
      (''Promoci'' @ [CHR 0xF3] @ ''n'', ''PASSED''),
      (''Examen'', ''PASSED''),
      (''Equivalencia Parcial'', ''SIGNED''),
      (''Equivalencia Total'', ''PASSED'')]"

fun firstLiteral :: "string list \<Rightarrow> string \<Rightarrow> (string \<times> string) option" where
  \<comment> \<open>An alternation of literals at the start of the text: the first literal that is
      there, and the rest of the text.\<close>
  "firstLiteral [] s = None"
| "firstLiteral (l # ls) s =
     (case stripPrefix l s of Some r \<Rightarrow> Some (l, r) | None \<Rightarrow> firstLiteral ls s)"

fun courseTextRegex :: "string \<Rightarrow> string option" where
  \<comment> \<open>\<open>/\((\d{6})\)/\<close>, not anchored: group 1 of the leftmost match.\<close>
  "courseTextRegex [] = None"
| "courseTextRegex (c # cs) =
     (case (if c = CHR ''(''
            then (case Option.bind (eatDigits 6 cs) (stripPrefix '')'') of
                    Some r \<Rightarrow> Some (take 6 cs)
                  | None \<Rightarrow> None)
            else None) of
        Some g \<Rightarrow> Some g
      | None \<Rightarrow> courseTextRegex cs)"

definition numericGrade :: "string \<Rightarrow> string option" where
  \<comment> \<open>\<open>\d{1,2} \(\w+\) (?:Promocionado|Aprobado|Reprobado)\<close> at the start of the text:
      the rest of the text.\<close>
  "numericGrade s =
     (case (case Option.bind (eatDigits 2 s) (stripPrefix '' ('') of
              Some r \<Rightarrow> Some r
            | None \<Rightarrow> Option.bind (eatDigits 1 s) (stripPrefix '' ('')) of
        None \<Rightarrow> None
      | Some r \<Rightarrow>
          if takeWhile isWordChar r = [] then None
          else
            (case stripPrefix '') '' (dropWhile isWordChar r) of
               None \<Rightarrow> None
             | Some r' \<Rightarrow>
                 map_option snd (firstLiteral [''Promocionado'', ''Aprobado'', ''Reprobado''] r')))"

definition gradesRegex :: "string \<Rightarrow> (string \<times> string) option" where
  \<comment> \<open>The eight alternatives of \<open>gradesRegex\<close>, in order, at the start of the text: the
      text matched and the rest. No two of them match at the same place.\<close>
  "gradesRegex s =
     (case firstLiteral [''Inicio de dictado''] s of
        Some m \<Rightarrow> Some m
      | None \<Rightarrow>
          (case numericGrade s of
             Some r \<Rightarrow> Some (take (length s - length r) s, r)
           | None \<Rightarrow>
               firstLiteral
                 [''Aprobada (Aprobada) Aprobado'',
                  ''No aprobad (No aprobada) Reprobado'',
                  ''No aprobad (No aprobada) Ausente'',
                  ''Aprobado'', ''Reprobado'', ''Ausente''] s))"

definition dateRegex :: "string \<Rightarrow> string option" where
  \<comment> \<open>\<open>\d{2}\/\d{2}\/\d{4}\<close> at the start of the text: the rest of the text.\<close>
  "dateRegex s =
     Option.bind (Option.bind (Option.bind (Option.bind (eatDigits 2 s) (stripPrefix ''/''))
       (eatDigits 2)) (stripPrefix ''/'')) (eatDigits 4)"

definition historyRowRegex :: "string \<Rightarrow> (string \<times> string \<times> string) option" where
  \<comment> \<open>\<open>^(types) {1,2}- (grades) (date) - .*Detalle$\<close>: the groups 1, 2 and 3.\<close>
  "historyRowRegex s =
     (case firstLiteral (map fst typesMap) s of
        None \<Rightarrow> None
      | Some (g1, r) \<Rightarrow>
     (case (case stripPrefix ''  - '' r of Some r1 \<Rightarrow> Some r1 | None \<Rightarrow> stripPrefix '' - '' r) of
        None \<Rightarrow> None
      | Some r1 \<Rightarrow>
     (case gradesRegex r1 of
        None \<Rightarrow> None
      | Some (g2, r2) \<Rightarrow>
     (case stripPrefix '' '' r2 of
        None \<Rightarrow> None
      | Some r3 \<Rightarrow>
     (case Option.bind (dateRegex r3) (stripPrefix '' - '') of
        None \<Rightarrow> None
      | Some r4 \<Rightarrow>
          if endsWith r4 ''Detalle'' \<and> \<not> list_ex isLineTerminator r4
          then Some (g1, g2, take 10 r3) else None)))))"

definition parseHistoryItem ::
  "(string \<Rightarrow> error + 'date) \<Rightarrow> string \<times> string \<Rightarrow> error + 'date historyEntry option" where
  \<comment> \<open>The \<open>map\<close> callback of \<open>parseAcademicHistory\<close> on the texts of the \<open>h4\<close> and of the
      \<open>span\<close> of one item; \<open>None\<close> is \<open>null\<close>. \<open>parseDate\<close> is the function of \<open>utils\<close>.\<close>
  "parseHistoryItem parseDate item =
     (let courseText = fst item in
      case courseTextRegex courseText of
        None \<Rightarrow> Inl (CourseTextNotParsed courseText)
      | Some code \<Rightarrow>
          (let historyRow = trim (snd item) in
           case historyRowRegex historyRow of
             None \<Rightarrow> Inl (HistoryRowNotParsed historyRow)
           | Some (g1, grade, g3) \<Rightarrow>
               (let isApprovedGrade =
                      ((includesStr grade ''Promocionado'' \<or> includesStr grade ''Aprobado'')
                        \<and> \<not> includesStr grade ''No aprobad'')
                in case parseDate g3 of
                     Inl e \<Rightarrow> Inl e
                   | Inr d \<Rightarrow>
                       if \<not> isApprovedGrade then Inr None
                       else Inr (Some \<lparr> entryCourseCode = code,
                                        entryType = map_of typesMap g1,
                                        entryDate = d \<rparr>))))"

definition historyUrl :: string where
  "historyUrl = ''/autogestion/grado/historia_academica/?checks=PromocionA,RegularidadA,RegularidadR,RegularidadU,EnCurso,ExamenA,ExamenR,ExamenU,EquivalenciaA,EquivalenciaR,AprobResA,CreditosA,&modo=anio&param_modo=&e_cu=A&e_ex=A&e_re=A''"

text \<open>
  The collaborators of the history page, in one record: \<open>JSON.parse\<close> and the jQuery
  selections (see \<open>fetchAjaxPageContents\<close>), the texts of the \<open>h4\<close> and of the \<open>span\<close> of
  every \<open>.catedra_nombre\<close> item, and of \<open>utils\<close> and \<open>Date\<close>: \<open>parseDate\<close>, the time
  value that \<open>a - b\<close> compares, and \<open>getFullYear\<close>.
\<close>

record 'date historyPage =
  JSON_parse :: "content \<Rightarrow> error + (string \<times> string)"
  arrivals :: "string \<Rightarrow> error + (string \<times> string) list"
  catedraItems :: "string \<Rightarrow> error + (string \<times> string) list"
  parseDate :: "string \<Rightarrow> error + 'date"
  timeValue :: "'date \<Rightarrow> int"
  getFullYear :: "'date \<Rightarrow> int"

definition parseAcademicHistory ::
  "'date historyPage \<Rightarrow> (string \<Rightarrow> error + string) \<Rightarrow> content state
     \<Rightarrow> (error + 'date historyEntry list) \<times> content state" where
  "parseAcademicHistory page ajax st =
     (case fetchAjaxPageContents (JSON_parse page) (arrivals page) ajax historyUrl
             ''info_historia'' st of
        (p, st') \<Rightarrow>
          (thenP p (\<lambda>responseText.
             case catedraItems page responseText of
               Inl e \<Rightarrow> Inl e
             | Inr items \<Rightarrow>
                 (case mapThrowing (parseHistoryItem (parseDate page)) items of
                    Inl e \<Rightarrow> Inl e
                  | Inr courses \<Rightarrow> Inr (List.map_filter (\<lambda>course. course) courses))), st'))"




record passedCourses =
  passed :: "string list"
  signed :: "string list"

definition uniq :: "'a list \<Rightarrow> 'a list" where
  \<comment> \<open>\<open>[...new Set(xs)]\<close>: every element once, in the order of first insertion.\<close>
  "uniq xs = foldl (\<lambda>seen x. if x \<in> set seen then seen else seen @ [x]) [] xs"

definition getPassedCourses_then :: "'date historyEntry list \<Rightarrow> passedCourses" where
  "getPassedCourses_then coursesHistory =
     (let signedCourses = uniq (map entryCourseCode coursesHistory);
          passedCourses =
            map entryCourseCode
              (filter (\<lambda>course. entryType course = Some ''PASSED'') coursesHistory)
      in \<lparr> passed = passedCourses, signed = signedCourses \<rparr>)"

definition getPassedCourses ::
  "'date historyPage \<Rightarrow> (error \<Rightarrow> string) \<Rightarrow> (string \<Rightarrow> error + string) \<Rightarrow> content state
     \<Rightarrow> (error + passedCourses) \<times> content state" where
  "getPassedCourses page stringifyError ajax st =
     (case parseAcademicHistory page ajax st of
        (p, st') \<Rightarrow>
          catchTrack stringifyError ''getPassedCourses''
            (thenP p (\<lambda>coursesHistory. Inr (getPassedCourses_then coursesHistory))) st')"






section \<open>The portal parser\<close>

text \<open>
  The portal parser has a cache of its own, which holds response texts only. The
  jQuery selections over a response text are collaborators:
  \<open>jq selector responseText\<close> is \<open>$(responseText).find(selector).text()\<close>, and it can
  throw.
\<close>

definition getPageContents ::
  "(string \<Rightarrow> error + string) \<Rightarrow> string \<Rightarrow> string state \<Rightarrow> (error + string) \<times> string state" where
  \<comment> \<open>\<open>if (CACHED_PAGE_CONTENTS[url])\<close> holds of an entry that is not the empty string.\<close>
  "getPageContents ajax url st =
     (case (case CACHED_PAGE_CONTENTS st url of
              None \<Rightarrow> None
            | Some c \<Rightarrow> if c \<noteq> [] then Some c else None) of
        Some c \<Rightarrow> (Inr c, st)
      | None \<Rightarrow>
          (let st' = st\<lparr>requests := requests st @ [url]\<rparr>
           in case ajax url of
                Inl e \<Rightarrow> (Inl e, st')
              | Inr responseText \<Rightarrow>
                  (Inr responseText,
                   st'\<lparr>CACHED_PAGE_CONTENTS :=
                         (CACHED_PAGE_CONTENTS st')(url \<mapsto> responseText)\<rparr>)))"



definition sessionExpired :: string where
  "sessionExpired = ''La sesi'' @ [CHR 0xF3] @ ''n ha expirado''"

definition siga_getStudentId_then ::
  "(string \<Rightarrow> string \<Rightarrow> error + string) \<Rightarrow> string \<Rightarrow> error + string" where
  "siga_getStudentId_then jq responseText =
     (case jq ''div.center p.mask1 span'' responseText of
        Inl e \<Rightarrow> Inl e
      | Inr studentId \<Rightarrow>
          if studentId = []
          then (case jq ''div.std-canvas div'' responseText of
                  Inl e \<Rightarrow> Inl e
                | Inr t \<Rightarrow>
                    if trim t = sessionExpired
                    then Inl (LoggedOutError
                           ''Couldn't get studentId because the user has been logged out.'')
                    else Inl (Error (''Couldn't get studentId from responseText: ''
                                      @ responseText)))
          else Inr studentId)"

definition isLoggedOutError :: "error \<Rightarrow> bool" where
  \<comment> \<open>\<open>e instanceof LoggedOutError\<close>\<close>
  "isLoggedOutError e = (case e of LoggedOutError m \<Rightarrow> True | _ \<Rightarrow> False)"

definition siga_getStudentId ::
  "(string \<Rightarrow> string \<Rightarrow> error + string) \<Rightarrow> (error \<Rightarrow> string) \<Rightarrow> (string \<Rightarrow> error + string)
     \<Rightarrow> string state \<Rightarrow> (error + string) \<times> string state" where
  "siga_getStudentId jq stringifyError ajax st =
     (case getPageContents ajax ''/alu/inscurcomp.do'' st of
        (p, st') \<Rightarrow>
          (case thenP p (siga_getStudentId_then jq) of
             Inl e \<Rightarrow>
               (Inl e,
                if \<not> isLoggedOutError e
                then st'\<lparr>logged := trackError stringifyError e ''getStudentId'' (logged st')\<rparr>
                else st')
           | Inr studentId \<Rightarrow> (Inr studentId, st')))"

definition td :: "string list \<Rightarrow> nat \<Rightarrow> string" where
  \<comment> \<open>\<open>$(tr).find("td:eq(n)").text()\<close> on the texts of the cells of a row: the empty
      string when the row has no such cell.\<close>
  "td tr n = (case at tr n of None \<Rightarrow> [] | Some t \<Rightarrow> t)"

definition filterByKind :: "string list list \<Rightarrow> string \<Rightarrow> string list" where
  "filterByKind rows kind =
     map (\<lambda>tr. trim (td tr 3))
       (filter (\<lambda>tr. trim (td tr 1) = ''Aprob'')
         (filter (\<lambda>tr. trim (td tr 0) = kind) rows))"

definition siga_passedCoursesOfRows :: "string list list \<Rightarrow> passedCourses" where
  \<comment> \<open>On the rows of \<open>.std-canvas table:first tbody tr:not(:first)\<close>.\<close>
  "siga_passedCoursesOfRows rows =
     (let passedCourses = filterByKind rows ''Final'';
          signedCourses = uniq (passedCourses @ filterByKind rows ''Cursada'')
      in \<lparr> passed = passedCourses, signed = signedCourses \<rparr>)"

definition siga_getPassedCourses_then ::
  "(string \<Rightarrow> error + string list list) \<Rightarrow> string \<Rightarrow> error + passedCourses" where
  \<comment> \<open>\<open>histRows\<close> is the jQuery selection of the rows of the history table, as the texts
      of their cells.\<close>
  "siga_getPassedCourses_then histRows responseText =
     (case histRows responseText of
        Inl e \<Rightarrow> Inl e
      | Inr rows \<Rightarrow> Inr (siga_passedCoursesOfRows rows))"

definition siga_getPassedCourses ::
  "(string \<Rightarrow> error + string list list) \<Rightarrow> (error \<Rightarrow> string) \<Rightarrow> (string \<Rightarrow> error + string)
     \<Rightarrow> string state \<Rightarrow> (error + passedCourses) \<times> string state" where
  "siga_getPassedCourses histRows stringifyError ajax st =
     (case getPageContents ajax ''/alu/hist.do'' st of
        (p, st') \<Rightarrow>
          catchTrack stringifyError ''getPassedCourses''
            (thenP p (siga_getPassedCourses_then histRows)) st')"

subsection \<open>Survey answers\<close>

text \<open>
  One row of the table of a taken survey, as jQuery reads it: the text of the first
  cell, the text of the selected option, the text of the option of value 2, and the
  value of the text area of the next row (\<open>None\<close> when there is none).
\<close>

record surveyRow =
  questionText :: string
  selectedText :: string
  secondOptionText :: string
  textareaVal :: "string option"

datatype 'num answerValue = TextValue string | NumberValue 'num | NullValue

record 'num answer =
  question :: string
  answerType :: string
  answerValue :: "'num answerValue"

definition answerOfRow ::
  "(string \<Rightarrow> string) \<Rightarrow> (string \<Rightarrow> 'num) \<Rightarrow> ('num \<Rightarrow> bool) \<Rightarrow> surveyRow
     \<Rightarrow> error + 'num answer option" where
  \<comment> \<open>The \<open>map\<close> callback of \<open>getAnswersFromSurvey\<close>; \<open>None\<close> is \<open>false\<close>. \<open>toLowerCase\<close>
      is the string method; \<open>jsParseInt\<close> and \<open>isNaN\<close> are the built-in functions
      \<open>parseInt\<close> and \<open>isNaN\<close>, over the numbers \<open>'num\<close>.\<close>
  "answerOfRow toLowerCase jsParseInt isNaN tr =
     (let q = trim (questionText tr);
          comboValue = trim (selectedText tr)
      in if comboValue = [] then Inr None
         else
           (let secondOption = trim (toLowerCase (secondOptionText tr))
            in if secondOption = ''no opina''
               then Inr (Some \<lparr> question = q, answerType = ''TEXT'',
                                answerValue =
                                  (case textareaVal tr of
                                     None \<Rightarrow> NullValue
                                   | Some v \<Rightarrow> if v = [] then NullValue else TextValue v) \<rparr>)
               else if endsWith secondOption ''%''
               then Inr (Some \<lparr> question = q, answerType = ''PERCENTAGE'',
                                answerValue =
                                  (if isNaN (jsParseInt comboValue) then NullValue
                                   else NumberValue (jsParseInt comboValue)) \<rparr>)
               else Inl (SecondOptionNotParsed secondOption)))"

definition getAnswersFromSurvey_then ::
  "(string \<Rightarrow> string) \<Rightarrow> (string \<Rightarrow> 'num) \<Rightarrow> ('num \<Rightarrow> bool) \<Rightarrow> surveyRow list
     \<Rightarrow> error + 'num answer list" where
  \<comment> \<open>On the rows of \<open>.std-canvas table tr\<close> of the response.\<close>
  "getAnswersFromSurvey_then toLowerCase jsParseInt isNaN rows =
     (case mapThrowing (answerOfRow toLowerCase jsParseInt isNaN) rows of
        Inl e \<Rightarrow> Inl e
      | Inr answers \<Rightarrow> Inr (List.map_filter (\<lambda>answer. answer) answers))"

subsection \<open>Class schedules of the portal\<close>






subsection \<open>Surveys of the portal\<close>


















section \<open>Example inputs\<close>

text \<open>
  A history page of the transcript site with two approved rows of a passed type for the
  course 950701 (a promotion and an exam) and one approved signed row for 950702; the
  collaborators answer the same for every request. Dates are kept as their text.
\<close>

definition exampleHistoryPage :: "string historyPage" where
  "exampleHistoryPage =
     \<lparr> JSON_parse = (\<lambda>c. Inr (''1'', ''cont'')),
       arrivals = (\<lambda>c. Inr [(''info_historia'', ''html'')]),
       catedraItems = (\<lambda>h. Inr
         [(''Fisica I (950701)'',
           ''Promoci'' @ [CHR 0xF3] @ ''n - 8 (Ocho) Promocionado 01/07/2015 - Detalle''),
          (''Fisica I (950701)'', ''Examen - 8 (Ocho) Aprobado 12/12/2015 - Detalle''),
          (''Algebra (950702)'',
           ''Regularidad - Aprobada (Aprobada) Aprobado 01/07/2016 - Detalle'')]),
       parseDate = (\<lambda>s. Inr s),
       timeValue = (\<lambda>d. 0),
       getFullYear = (\<lambda>d. 2015) \<rparr>"

text \<open>
  The rows of a history table of the portal with two approved finals of the course
  950701 and one approved course work of 950702.
\<close>

definition exampleHistRows :: "string list list" where
  "exampleHistRows =
     [[''Final'', ''Aprob'', ''8'', ''950701''],
      [''Final'', ''Aprob'', ''9'', ''950701''],
      [''Cursada'', ''Aprob'', '''', ''950702'']]"

definition emptyState :: "'c state" where
  \<comment> \<open>A parser that has fetched and logged nothing yet.\<close>
  "emptyState = \<lparr>CACHED_PAGE_CONTENTS = Map.empty, requests = [], logged = []\<rparr>"

text \<open>
  \<open>toLowerCase\<close> on the letters A to Z, for the examples; every other character is kept.
\<close>

definition asciiLower :: "string \<Rightarrow> string" where
  "asciiLower s =
     map (\<lambda>c. if c \<in> set ''ABCDEFGHIJKLMNOPQRSTUVWXYZ''
               then char_of (of_char c + (32 :: nat)) else c) s"

text \<open>
  Two pages of the portal with an empty student id element: one whose canvas shows the
  session-expired text, one whose canvas shows something else.
\<close>

definition expiredPage :: "string \<Rightarrow> string \<Rightarrow> error + string" where
  "expiredPage selector responseText =
     Inr (if selector = ''div.center p.mask1 span'' then []
          else '' '' @ sessionExpired @ '' '')"

definition brokenPage :: "string \<Rightarrow> string \<Rightarrow> error + string" where
  "brokenPage selector responseText =
     Inr (if selector = ''div.center p.mask1 span'' then [] else ''Bienvenido'')"

text \<open>
  A page of the portal with an empty student id element whose canvas holds two \<open>div\<close>
  elements, the first with the session-expired text and the second with another line;
  jQuery gives the two texts one after the other.
\<close>

definition expiredAmongOthersPage :: "string \<Rightarrow> string \<Rightarrow> error + string" where
  "expiredAmongOthersPage selector responseText =
     Inr (if selector = ''div.center p.mask1 span'' then []
          else sessionExpired @ ''Ingrese nuevamente'')"

section \<open>Statement helpers\<close>

text \<open>
  The document in which the two tokens at \<open>k\<close> and \<open>k + 1\<close> are one token, joined by a
  space: what a course name split into two rows stands for.
\<close>

definition joinWrapped :: "string list \<Rightarrow> nat \<Rightarrow> string list" where
  "joinWrapped contents k =
     take k contents @ [String (at contents k) @ '' '' @ String (at contents (k + 1))]
       @ drop (k + 2) contents"

section \<open>Lemmas about the cursor and the record parser\<close>

lemma validateExpectedContents_ok:
  "(\<forall>j<length expected. at contents (i + j) = Some (expected ! j))
   \<Longrightarrow> validateExpectedContents contents i expected = Inr (i + length expected)"
proof (induction expected arbitrary: i)
  case Nil
  then show ?case by simp
next
  case (Cons x xs)
  from Cons.prems have h0: "at contents i = Some x" by force
  have "\<forall>j<length xs. at contents (Suc i + j) = Some (xs ! j)"
  proof (intro allI impI)
    fix j assume "j < length xs"
    then have "at contents (i + Suc j) = Some ((x # xs) ! Suc j)"
      using Cons.prems by (metis Suc_less_eq length_Cons)
    then show "at contents (Suc i + j) = Some (xs ! j)" by simp
  qed
  from Cons.IH[OF this] h0 show ?case by simp
qed


lemma validateExpectedContents_Inl:
  "validateExpectedContents contents i expected = Inl e \<Longrightarrow>
     \<exists>k<length expected. e = InvalidPdfContents (i + k) (Tokens contents)
        \<and> at contents (i + k) \<noteq> Some (expected ! k)
        \<and> (\<forall>j<k. at contents (i + j) = Some (expected ! j))"
proof (induction expected arbitrary: i)
  case Nil
  then show ?case by simp
next
  case (Cons x xs)
  show ?case
  proof (cases "at contents i = Some x")
    case False
    with Cons.prems have "e = InvalidPdfContents (i + 0) (Tokens contents)" by simp
    with False show ?thesis by (intro exI[of _ 0]) simp
  next
    case True
    with Cons.prems have "validateExpectedContents contents (Suc i) xs = Inl e" by simp
    from Cons.IH[OF this] obtain k where k: "k < length xs"
      "e = InvalidPdfContents (Suc i + k) (Tokens contents)"
      "at contents (Suc i + k) \<noteq> Some (xs ! k)"
      "\<forall>j<k. at contents (Suc i + j) = Some (xs ! j)" by blast
    have "\<forall>j<Suc k. at contents (i + j) = Some ((x # xs) ! j)"
    proof (intro allI impI)
      fix j assume "j < Suc k"
      then show "at contents (i + j) = Some ((x # xs) ! j)"
        using True k(4) by (cases j) auto
    qed
    with k show ?thesis by (intro exI[of _ "Suc k"]) simp
  qed
qed


lemma empty_pdf_iff: "(length contents = 1 \<and> at contents 0 = Some []) = (contents = [[]])"
  by (cases contents) (auto simp: at_def)

lemma then_header_fail:
  assumes "contents \<noteq> [[]]"
    and "validateExpectedContents contents 0 receiptHeader = Inl e"
  shows "getClassSchedules_then up gs (Tokens contents) = Inl e"
proof -
  have "\<not> (length contents = 1 \<and> at contents 0 = Some [])"
    using assms(1) empty_pdf_iff[of contents] by blast
  then show ?thesis
    using assms(2) unfolding getClassSchedules_then_def by auto
qed

lemma header_mismatch:
  assumes "take 2 contents \<noteq> receiptHeader"
  shows "\<exists>k<2. validateExpectedContents contents 0 receiptHeader = Inl (InvalidPdfContents k (Tokens contents))"
proof (cases "at contents 0 = Some ''''")
  case False
  then have "validateExpectedContents contents 0 receiptHeader = Inl (InvalidPdfContents 0 (Tokens contents))"
    by (simp add: receiptHeader_def)
  then show ?thesis by (intro exI[of _ 0]) simp
next
  case True
  then obtain rest where c: "contents = [] # rest"
    by (cases contents) (auto simp: at_def)
  have "at contents 1 \<noteq> Some (receiptHeader ! 1)"
  proof
    assume "at contents 1 = Some (receiptHeader ! 1)"
    with c obtain rest' where "rest = (receiptHeader ! 1) # rest'"
      by (cases rest) (auto simp: at_def)
    with c have "take 2 contents = [[], receiptHeader ! 1]" by simp
    also have "\<dots> = receiptHeader" by (simp add: receiptHeader_def)
    finally show False using assms by simp
  qed
  then have "validateExpectedContents contents 0 receiptHeader = Inl (InvalidPdfContents 1 (Tokens contents))"
    using True by (simp add: receiptHeader_def)
  then show ?thesis by (intro exI[of _ 1]) simp
qed

lemma at_joinWrapped_before: "n < k \<Longrightarrow> k < length contents \<Longrightarrow> at (joinWrapped contents k) n = at contents n"
  by (simp add: at_def joinWrapped_def nth_append)

lemma at_joinWrapped_here:
  "k < length contents \<Longrightarrow> at (joinWrapped contents k) k
     = Some (String (at contents k) @ '' '' @ String (at contents (k + 1)))"
  by (simp add: at_def joinWrapped_def nth_append)

lemma at_joinWrapped_after:
  "k < n \<Longrightarrow> k + 1 < length contents \<Longrightarrow> at (joinWrapped contents k) n = at contents (n + 1)"
  by (auto simp: at_def joinWrapped_def nth_append min_def)

lemma validate_joinWrapped:
  assumes "k < n" "k + 1 < length contents"
  shows "(validateExpectedContents (joinWrapped contents k) n [x] = Inr j)
     = (validateExpectedContents contents (n + 1) [x] = Inr (j + 1))"
  using assms by (auto simp: at_joinWrapped_after)

lemma readBranch_joinWrapped:
  assumes "k < n" "k + 1 < length contents"
  shows "(readBranch up (joinWrapped contents k) n = Inr (b, j))
     = (readBranch up contents (n + 1) = Inr (b, j + 1))"
  using assms
  by (auto simp: readBranch_def at_joinWrapped_after Let_def split: option.splits)

lemma readSchedules_joinWrapped:
  assumes "k < n" "k + 1 < length contents"
  shows "(readSchedules gs (joinWrapped contents k) n = Inr (s, j))
     = (readSchedules gs contents (n + 1) = Inr (s, j + 1))"
  using assms
  by (auto simp: readSchedules_def at_joinWrapped_after Let_def split: sum.splits)

lemma yq_undefined: "yearAndQuarterRegex ''undefined'' = None"
  by (simp add: yearAndQuarterRegex_def startsWith_def)

lemma yq_defined: "yearAndQuarterRegex (String t) = Some g \<Longrightarrow> \<exists>s. t = Some s"
  by (cases t) (simp_all add: String_def yq_undefined)

lemma wrap_equiv:
  assumes fail1: "yearAndQuarterRegex (String (at contents (i + 2))) = None"
  shows "(yearAndQuarterRegex (String (at contents (i + 3))) = None \<longrightarrow>
            readCourseName contents (i + 1) = Inl (ClassTimeNotParsed (String (at contents (i + 3))) (Tokens contents)))
       \<and> (yearAndQuarterRegex (String (at contents (i + 3))) \<noteq> None \<longrightarrow>
            (parseClassSchedule up gs contents i = Inr (r, j + 1))
             = (parseClassSchedule up gs (joinWrapped contents (i + 1)) i = Inr (r, j)))"
proof (intro conjI impI)
  assume "yearAndQuarterRegex (String (at contents (i + 3))) = None"
  with fail1 show "readCourseName contents (i + 1) = Inl (ClassTimeNotParsed (String (at contents (i + 3))) (Tokens contents))"
    by (simp add: readCourseName_def Let_def numeral_3_eq_3 add.commute)
next
  assume ok: "yearAndQuarterRegex (String (at contents (i + 3))) \<noteq> None"
  then obtain g where g: "yearAndQuarterRegex (String (at contents (i + 3))) = Some g" by auto
  from yq_defined[OF g] have len: "i + 3 < length contents"
    by (auto simp: at_def split: if_splits)
  let ?c' = "joinWrapped contents (i + 1)"
  let ?name = "Some (String (at contents (i + 1)) @ '' '' @ String (at contents (i + 2)))"
  have n1: "readCourseName contents (i + 1) = Inr (?name, g, i + 4)"
    using fail1 g by (simp add: readCourseName_def Let_def add.commute numeral_Bit0 numeral_Bit1 add.left_commute)
  have a2: "at ?c' (i + 2) = at contents (i + 3)"
    using at_joinWrapped_after[of "i + 1" "i + 2" contents] len by (simp add: numeral_3_eq_3)
  have a1: "at ?c' (i + 1) = ?name"
    using at_joinWrapped_here[of "i + 1" contents] len by (simp add: add.commute)
  have n2: "readCourseName ?c' (i + 1) = Inr (?name, g, i + 3)"
    unfolding readCourseName_def using a1 a2 g
    by (simp add: Let_def add.commute numeral_Bit0 numeral_Bit1 add.left_commute)
  have a0: "at ?c' i = at contents i"
    using at_joinWrapped_before[of i "i + 1" contents] len by simp
  have a3: "at ?c' (i + 3) = at contents (i + 4)"
    using at_joinWrapped_after[of "i + 1" "i + 3" contents] len by (simp add: add.commute)
  have br: "(readBranch up ?c' (i + 3 + 1) = Inr (b, k)) = (readBranch up contents (i + 4 + 1) = Inr (b, k + 1))" for b k
    using readBranch_joinWrapped[of "i + 1" "i + 3 + 1" contents up b k] len by simp
  have sc: "(readSchedules gs ?c' (k + 1) = Inr (s, m)) = (readSchedules gs contents (k + 1 + 1 ) = Inr (s, m + 1))"
    if "i + 1 < k" for s k m
    using readSchedules_joinWrapped[of "i + 1" "k + 1" contents gs s m] len that by simp
  show "(parseClassSchedule up gs contents i = Inr (r, j + 1))
             = (parseClassSchedule up gs ?c' i = Inr (r, j))"
  proof
    assume L: "parseClassSchedule up gs contents i = Inr (r, j + 1)"
    then obtain code name g1 g2 g3 i1 classCodeStr b i2 sch where
      c: "at contents i = Some code" "courseCodeRegex code"
      and n: "readCourseName contents (i + 1) = Inr (name, (g1, g2, g3), i1)"
      and cc: "at contents i1 = Some classCodeStr"
      and b: "readBranch up contents (i1 + 1) = Inr (b, i2)"
      and s: "readSchedules gs contents (i2 + 1) = Inr (sch, j + 1)"
      and r: "r = \<lparr> year = parseInt g3,
           quarter = (if g1 = ''Anual'' then ''A'' else String g2 @ ''C''),
           courseName = name, classCode = up classCodeStr, courseCode = code,
           branch = b, schedules = sch \<rparr>"
      by (rule parseClassSchedule_Inr)
    from n n1 have e: "name = ?name" "g = (g1, g2, g3)" "i1 = i + 4" by simp_all
    from readBranch_advances[OF b] e have "i2 > 0" by auto
    then obtain k where k: "i2 = k + 1" by (metis Suc_eq_plus1 gr0_implies_Suc)
    from readBranch_advances[OF b] e k have kk: "i + 1 < k" by auto
    have b': "readBranch up ?c' (i + 3 + 1) = Inr (b, k)"
      using br[of b k] b e k by simp
    have s': "readSchedules gs ?c' (k + 1) = Inr (sch, j)"
      using sc[OF kk, of sch j] s k by simp
    show "parseClassSchedule up gs ?c' i = Inr (r, j)"
      unfolding parseClassSchedule_def using a0 c n2 e a3 cc b' s' r by simp
  next
    assume R: "parseClassSchedule up gs ?c' i = Inr (r, j)"
    then obtain code name g1 g2 g3 i1 classCodeStr b i2 sch where
      c: "at ?c' i = Some code" "courseCodeRegex code"
      and n: "readCourseName ?c' (i + 1) = Inr (name, (g1, g2, g3), i1)"
      and cc: "at ?c' i1 = Some classCodeStr"
      and b: "readBranch up ?c' (i1 + 1) = Inr (b, i2)"
      and s: "readSchedules gs ?c' (i2 + 1) = Inr (sch, j)"
      and r: "r = \<lparr> year = parseInt g3,
           quarter = (if g1 = ''Anual'' then ''A'' else String g2 @ ''C''),
           courseName = name, classCode = up classCodeStr, courseCode = code,
           branch = b, schedules = sch \<rparr>"
      by (rule parseClassSchedule_Inr)
    from n n2 have e: "name = ?name" "g = (g1, g2, g3)" "i1 = i + 3" by simp_all
    from readBranch_advances[OF b] e have kk: "i + 1 < i2" by auto
    have b': "readBranch up contents (i + 4 + 1) = Inr (b, i2 + 1)"
      using br[of b i2] b e by simp
    have s': "readSchedules gs contents (i2 + 1 + 1) = Inr (sch, j + 1)"
      using sc[OF kk, of sch j] s by simp
    show "parseClassSchedule up gs contents i = Inr (r, j + 1)"
      unfolding parseClassSchedule_def using a0 c n1 e a3 cc b' s' r by simp
  qed
qed

lemma sentinel_readSchedules:
  assumes "at contents k = Some s" and "s \<in> set undefinedSchedules"
  shows "readSchedules getSchedulesFromString contents k = Inr (None, k + 1)"
  using assms by (simp add: readSchedules_def)

section \<open>Claims about the transcript parser's class schedules\<close>

text \<open>
  C2. For each of the four sentinel schedule strings \<open>Do(m)0:0\<close>, \<open>Do(t)0:0\<close>,
  \<open>Do(n)0:0\<close> and \<open>Sin definir\<close>, a record of \<open>getClassSchedules\<close> whose schedule token
  (the last token the record consumes) is that string has \<open>schedules = null\<close>, and
  the decoder of \<open>utils\<close> plays no part in the record: any other decoder gives the same
  record.
\<close>

theorem sentinel_schedules_null:
  assumes "parseClassSchedule toUpperCase getSchedulesFromString contents i = Inr (r, j)"
    and "at contents (j - 1) = Some s"
    and "s \<in> {''Do(m)0:0'', ''Do(t)0:0'', ''Do(n)0:0'', ''Sin definir''}"
  shows "schedules r = None
         \<and> parseClassSchedule toUpperCase otherDecoder contents i = Inr (r, j)"
proof -
  from assms(1) obtain code name g1 g2 g3 i1 classCodeStr b i2 sch where
    c: "at contents i = Some code" "courseCodeRegex code"
    and n: "readCourseName contents (i + 1) = Inr (name, (g1, g2, g3), i1)"
    and cc: "at contents i1 = Some classCodeStr"
    and b: "readBranch toUpperCase contents (i1 + 1) = Inr (b, i2)"
    and s: "readSchedules getSchedulesFromString contents (i2 + 1) = Inr (sch, j)"
    and r: "r = \<lparr> year = parseInt g3,
           quarter = (if g1 = ''Anual'' then ''A'' else String g2 @ ''C''),
           courseName = name, classCode = toUpperCase classCodeStr, courseCode = code,
           branch = b, schedules = sch \<rparr>"
    by (rule parseClassSchedule_Inr)
  from readSchedules_advances[OF s] have j: "j = i2 + 2" by simp
  with assms(2) have tok: "at contents (i2 + 1) = Some s" by simp
  from assms(3) have mem: "s \<in> set undefinedSchedules"
    by (auto simp: undefinedSchedules_def)
  have any: "readSchedules g contents (i2 + 1) = Inr (None, j)"
    for g :: "string option \<Rightarrow> error + 'a option"
    using sentinel_readSchedules[OF tok mem, of g] j by simp
  from any[of getSchedulesFromString] s have none: "sch = None" by simp
  with r have 1: "schedules r = None" by simp
  have 2: "parseClassSchedule toUpperCase otherDecoder contents i = Inr (r, j)"
    unfolding parseClassSchedule_def using c n cc b any[of otherDecoder] r none by simp
  from 1 2 show ?thesis by simp
qed

theorem sentinel_schedules_null_witness:
  "parseClassSchedule (\<lambda>s. s) (\<lambda>s. Inr (Some s))
       [''950701'', ''Fisica I'', ''1er Cuat 2021'', ''Z1154'', ''CAMPUS'', ''2'', ''Do(n)0:0''] 0
     = Inr (\<lparr> year = Some 2021, quarter = ''1C'', courseName = Some ''Fisica I'',
              classCode = ''Z1154'', courseCode = ''950701'', branch = Some ''CAMPUS'',
              schedules = None \<rparr>, 7)
   \<and> parseClassSchedule (\<lambda>s. s)
       (\<lambda>s. Inl TypeError :: error + string option option)
       [''950701'', ''Fisica I'', ''1er Cuat 2021'', ''Z1154'', ''CAMPUS'', ''2'', ''Do(n)0:0''] 0
     = Inr (\<lparr> year = Some 2021, quarter = ''1C'', courseName = Some ''Fisica I'',
              classCode = ''Z1154'', courseCode = ''950701'', branch = Some ''CAMPUS'',
              schedules = None \<rparr>, 7)"
proof -
  let ?doc = "[''950701'', ''Fisica I'', ''1er Cuat 2021'', ''Z1154'', ''CAMPUS'', ''2'', ''Do(n)0:0'']"
  let ?r = "\<lparr> year = Some 2021, quarter = ''1C'', courseName = Some ''Fisica I'',
              classCode = ''Z1154'', courseCode = ''950701'', branch = Some ''CAMPUS'',
              schedules = (None :: string option option) \<rparr>"
  have h: "parseClassSchedule (\<lambda>s. s) (\<lambda>s. Inr (Some s)) ?doc 0 = Inr (?r, 7)"
    by code_simp
  have t: "at ?doc (7 - 1) = Some ''Do(n)0:0''"
    by (simp add: at_def)
  have m: "''Do(n)0:0'' \<in> {''Do(m)0:0'', ''Do(t)0:0'', ''Do(n)0:0'', ''Sin definir''}"
    by simp
  from sentinel_schedules_null[OF h t m, of "\<lambda>s. Inl TypeError"] h show ?thesis
    by blast
qed

text \<open>
  C3. In \<open>getClassSchedules\<close> of the transcript parser, let the record start at \<open>i\<close> (a
  valid course code) and let the token after the course name, at \<open>i + 2\<close>, fail the
  year and quarter pattern. If the token at \<open>i + 3\<close> fails it too, the record fails with
  that token (one wrap at most). Otherwise the token at \<open>i + 2\<close> is appended to the course
  name after a space, and the record is, error payload aside, the record of the document
  in which the two name tokens are one, with the cursor one token further: every later
  field is read one token later.
\<close>

theorem courseName_wrap:
  assumes "at contents i = Some code" and "courseCodeRegex code"
    and "yearAndQuarterRegex (String (at contents (i + 2))) = None"
  shows "(yearAndQuarterRegex (String (at contents (i + 3))) = None \<longrightarrow>
            parseClassSchedule toUpperCase getSchedulesFromString contents i
              = Inl (ClassTimeNotParsed (String (at contents (i + 3))) (Tokens contents)))
       \<and> (yearAndQuarterRegex (String (at contents (i + 3))) \<noteq> None \<longrightarrow>
            map_sum (\<lambda>e. ()) (\<lambda>x. x)
                (parseClassSchedule toUpperCase getSchedulesFromString contents i)
              = map_sum (\<lambda>e. ()) (\<lambda>(r, j). (r, j + 1))
                  (parseClassSchedule toUpperCase getSchedulesFromString
                     (joinWrapped contents (i + 1)) i)
            \<and> (\<forall>r j. parseClassSchedule toUpperCase getSchedulesFromString contents i
                        = Inr (r, j)
                  \<longrightarrow> courseName r
                        = Some (contents ! (i + 1) @ '' '' @ contents ! (i + 2))))"
proof (intro conjI impI allI)
  assume "yearAndQuarterRegex (String (at contents (i + 3))) = None"
  with wrap_equiv[OF assms(3)]
  have "readCourseName contents (i + 1)
          = Inl (ClassTimeNotParsed (String (at contents (i + 3))) (Tokens contents))"
    by blast
  with assms(1,2)
  show "parseClassSchedule toUpperCase getSchedulesFromString contents i
          = Inl (ClassTimeNotParsed (String (at contents (i + 3))) (Tokens contents))"
    by (simp add: parseClassSchedule_def)
next
  let ?P = "parseClassSchedule toUpperCase getSchedulesFromString"
  let ?c' = "joinWrapped contents (i + 1)"
  assume ok: "yearAndQuarterRegex (String (at contents (i + 3))) \<noteq> None"
  have eq: "(?P contents i = Inr (r, j + 1)) = (?P ?c' i = Inr (r, j))" for r j
    using wrap_equiv[OF assms(3), of toUpperCase getSchedulesFromString r j] ok by blast
  show "map_sum (\<lambda>e. ()) (\<lambda>x. x) (?P contents i)
          = map_sum (\<lambda>e. ()) (\<lambda>(r, j). (r, j + 1)) (?P ?c' i)"
  proof (cases "?P contents i")
    case (Inr p)
    obtain r j where p: "p = (r, j)" by (cases p)
    with Inr parseClassSchedule_advances[of toUpperCase getSchedulesFromString contents i r j]
    have "0 < j" by simp
    then obtain j' where j': "j = j' + 1" by (cases j) auto
    with Inr p eq[of r j'] have "?P ?c' i = Inr (r, j')" by simp
    with Inr p j' show ?thesis by simp
  next
    case (Inl e)
    have "\<exists>e'. ?P ?c' i = Inl e'"
    proof (cases "?P ?c' i")
      case (Inr p)
      obtain r j where "p = (r, j)" by (cases p)
      with Inr eq[of r j] Inl show ?thesis by simp
    qed simp
    with Inl show ?thesis by auto
  qed
next
  fix r j
  assume ok: "yearAndQuarterRegex (String (at contents (i + 3))) \<noteq> None"
    and res: "parseClassSchedule toUpperCase getSchedulesFromString contents i = Inr (r, j)"
  from ok obtain g where g: "yearAndQuarterRegex (String (at contents (i + 3))) = Some g"
    by auto
  from yq_defined[OF g] have len: "i + 3 < length contents"
    by (auto simp: at_def split: if_splits)
  then have toks: "String (at contents (i + 1)) = contents ! (i + 1)"
      "String (at contents (i + 2)) = contents ! (i + 2)"
    by (simp_all add: at_def String_def)
  have n: "readCourseName contents (i + 1)
             = Inr (Some (contents ! (i + 1) @ '' '' @ contents ! (i + 2)), g, i + 4)"
    using assms(3) g toks
    by (simp add: readCourseName_def Let_def add.commute numeral_Bit0 numeral_Bit1
          add.left_commute)
  from res obtain name g1 g2 g3 i1 where
    n': "readCourseName contents (i + 1) = Inr (name, (g1, g2, g3), i1)"
    and r: "courseName r = name"
    by (auto elim!: parseClassSchedule_Inr)
  from n n' r show "courseName r = Some (contents ! (i + 1) @ '' '' @ contents ! (i + 2))"
    by simp
qed

theorem courseName_wrap_witness:
  "yearAndQuarterRegex (String (at
       [''950702'', ''Analisis'', ''Matematico II'', ''Anual 2021'', ''z1155'', ''Medrano'',
        ''3'', ''Lu(n)1:5''] (0 + 2))) = None
   \<and> parseClassSchedule (\<lambda>s. s) (\<lambda>s. Inr (Some s))
       [''950702'', ''Analisis'', ''Matematico II'', ''Anual 2021'', ''z1155'', ''Medrano'',
        ''3'', ''Lu(n)1:5''] 0
     = Inr (\<lparr> year = Some 2021, quarter = ''A'',
              courseName = Some ''Analisis Matematico II'',
              classCode = ''z1155'', courseCode = ''950702'', branch = Some ''Medrano'',
              schedules = Some (Some ''Lu(n)1:5'') \<rparr>, 8)
   \<and> parseClassSchedule (\<lambda>s. s) (\<lambda>s. Inr (Some s))
       (joinWrapped
         [''950702'', ''Analisis'', ''Matematico II'', ''Anual 2021'', ''z1155'', ''Medrano'',
          ''3'', ''Lu(n)1:5''] (0 + 1)) 0
     = Inr (\<lparr> year = Some 2021, quarter = ''A'',
              courseName = Some ''Analisis Matematico II'',
              classCode = ''z1155'', courseCode = ''950702'', branch = Some ''Medrano'',
              schedules = Some (Some ''Lu(n)1:5'') \<rparr>, 7)
   \<and> parseClassSchedule (\<lambda>s. s) (\<lambda>s. Inr (Some s))
       [''950702'', ''Analisis'', ''Matematico'', ''II'', ''Anual 2021''] 0
     = Inl (ClassTimeNotParsed ''II''
              (Tokens [''950702'', ''Analisis'', ''Matematico'', ''II'', ''Anual 2021'']))"
proof -
  let ?P = "parseClassSchedule (\<lambda>s. s) (\<lambda>s. Inr (Some s))"
  let ?doc = "[''950702'', ''Analisis'', ''Matematico II'', ''Anual 2021'', ''z1155'',
               ''Medrano'', ''3'', ''Lu(n)1:5'']"
  let ?bad = "[''950702'', ''Analisis'', ''Matematico'', ''II'', ''Anual 2021'']"
  let ?r = "\<lparr> year = Some 2021, quarter = ''A'',
              courseName = Some ''Analisis Matematico II'',
              classCode = ''z1155'', courseCode = ''950702'', branch = Some ''Medrano'',
              schedules = Some (Some ''Lu(n)1:5'') \<rparr>"
  have c: "at ?doc 0 = Some ''950702''" "at ?bad 0 = Some ''950702''"
    by (simp_all add: at_def)
  have d: "courseCodeRegex ''950702''"
    by code_simp
  have f: "yearAndQuarterRegex (String (at ?doc (0 + 2))) = None"
    by code_simp
  have f': "yearAndQuarterRegex (String (at ?bad (0 + 2))) = None"
    by code_simp
  have g: "yearAndQuarterRegex (String (at ?doc (0 + 3))) \<noteq> None"
    by code_simp
  have g': "yearAndQuarterRegex (String (at ?bad (0 + 3))) = None"
    by code_simp
  have t: "String (at ?bad (0 + 3)) = ''II''"
    by (simp add: at_def String_def)
  have joined: "?P (joinWrapped ?doc (0 + 1)) 0 = Inr (?r, 7)"
    by code_simp
  from courseName_wrap[OF c(1) d f, of "\<lambda>s. s" "\<lambda>s. Inr (Some s)"] g
  have "map_sum (\<lambda>e. ()) (\<lambda>x. x) (?P ?doc 0)
          = map_sum (\<lambda>e. ()) (\<lambda>(r, j). (r, j + 1)) (?P (joinWrapped ?doc (0 + 1)) 0)"
    by blast
  with joined have whole: "?P ?doc 0 = Inr (?r, 8)"
    by (cases "?P ?doc 0") simp_all
  from courseName_wrap[OF c(2) d f', of "\<lambda>s. s" "\<lambda>s. Inr (Some s)"] g' t
  have fatal: "?P ?bad 0 = Inl (ClassTimeNotParsed ''II'' (Tokens ?bad))"
    by simp
  from f whole joined fatal show ?thesis by blast
qed




text \<open>
  C10. When the fetched document is the single token that is the empty string,
  \<open>getClassSchedules\<close> of the transcript parser resolves with the empty list and logs
  nothing; any other document whose first two tokens are not the fixed header fails the
  call with the error of the header check, which is logged.
\<close>

theorem empty_pdf_or_header:
  assumes "fetchPdfContents getDocument
             ''/autogestion/grado/calendario/descargar_comprobante'' st
           = (Inr (Tokens contents), st')"
  shows "(contents = [''''] \<longrightarrow>
            getClassSchedules toUpperCase getSchedulesFromString stringifyError getDocument st
              = (Inr [], st'))
       \<and> (contents \<noteq> [''''] \<and> take 2 contents \<noteq> receiptHeader \<longrightarrow>
            (\<exists>k<2. getClassSchedules toUpperCase getSchedulesFromString stringifyError
                      getDocument st
                    = (Inl (InvalidPdfContents k (Tokens contents)),
                       st'\<lparr>logged := logged st' @
                             [(''getClassSchedules'', True,
                               stringifyError (InvalidPdfContents k (Tokens contents)))]\<rparr>)))"
proof (intro conjI impI)
  assume "contents = ['''']"
  then have "getClassSchedules_then toUpperCase getSchedulesFromString (Tokens contents)
               = Inr []"
    by (simp add: getClassSchedules_then_def at_def)
  with assms
  show "getClassSchedules toUpperCase getSchedulesFromString stringifyError getDocument st
          = (Inr [], st')"
    by (simp add: getClassSchedules_def thenP_def catchTrack_def)
next
  assume a: "contents \<noteq> [''''] \<and> take 2 contents \<noteq> receiptHeader"
  with header_mismatch[of contents] obtain k where k: "k < 2"
    "validateExpectedContents contents 0 receiptHeader
       = Inl (InvalidPdfContents k (Tokens contents))"
    by blast
  with a then_header_fail[of contents _ toUpperCase getSchedulesFromString]
  have "getClassSchedules_then toUpperCase getSchedulesFromString (Tokens contents)
          = Inl (InvalidPdfContents k (Tokens contents))"
    by simp
  with assms
  have "getClassSchedules toUpperCase getSchedulesFromString stringifyError getDocument st
          = (Inl (InvalidPdfContents k (Tokens contents)),
             st'\<lparr>logged := logged st' @
                   [(''getClassSchedules'', True,
                     stringifyError (InvalidPdfContents k (Tokens contents)))]\<rparr>)"
    by (simp add: getClassSchedules_def thenP_def catchTrack_def trackError_def)
  with k(1)
  show "\<exists>k<2. getClassSchedules toUpperCase getSchedulesFromString stringifyError
                 getDocument st
               = (Inl (InvalidPdfContents k (Tokens contents)),
                  st'\<lparr>logged := logged st' @
                        [(''getClassSchedules'', True,
                          stringifyError (InvalidPdfContents k (Tokens contents)))]\<rparr>)"
    by blast
qed

theorem empty_pdf_or_header_witness:
  "fst (getClassSchedules (\<lambda>s. s) (\<lambda>s. Inr (Some s)) (\<lambda>e. ''error'') (\<lambda>url. Inr [''''])
          \<lparr>CACHED_PAGE_CONTENTS = Map.empty, requests = [], logged = []\<rparr>)
     = Inr []
   \<and> logged (snd (getClassSchedules (\<lambda>s. s) (\<lambda>s. Inr (Some s)) (\<lambda>e. ''error'')
          (\<lambda>url. Inr ['''']) \<lparr>CACHED_PAGE_CONTENTS = Map.empty, requests = [], logged = []\<rparr>))
     = []
   \<and> fst (getClassSchedules (\<lambda>s. s) (\<lambda>s. Inr (Some s)) (\<lambda>e. ''error'')
          (\<lambda>url. Inr ['''', ''''])
          \<lparr>CACHED_PAGE_CONTENTS = Map.empty, requests = [], logged = []\<rparr>)
     = Inl (InvalidPdfContents 1 (Tokens ['''', '''']))
   \<and> logged (snd (getClassSchedules (\<lambda>s. s) (\<lambda>s. Inr (Some s)) (\<lambda>e. ''error'')
          (\<lambda>url. Inr ['''', ''''])
          \<lparr>CACHED_PAGE_CONTENTS = Map.empty, requests = [], logged = []\<rparr>))
     = [(''getClassSchedules'', True, ''error'')]"
proof -
  let ?st = "\<lparr>CACHED_PAGE_CONTENTS = Map.empty, requests = [], logged = []\<rparr>
               :: content state"
  let ?url = "''/autogestion/grado/calendario/descargar_comprobante''"
  let ?G = "getClassSchedules (\<lambda>s. s) (\<lambda>s. Inr (Some s)) (\<lambda>e. ''error'')"
  have f: "fetchPdfContents (\<lambda>url. Inr c) ?url ?st
             = (Inr (Tokens c),
                \<lparr>CACHED_PAGE_CONTENTS = [?url \<mapsto> Tokens c], requests = [?url], logged = []\<rparr>)"
    for c
    by (simp add: fetchPdfContents_def cached_def)
  from empty_pdf_or_header[OF f[of "['''']"], of "\<lambda>s. s" "\<lambda>s. Inr (Some s)" "\<lambda>e. ''error''"]
  have 1: "?G (\<lambda>url. Inr ['''']) ?st
             = (Inr [], \<lparr>CACHED_PAGE_CONTENTS = [?url \<mapsto> Tokens ['''']],
                         requests = [?url], logged = []\<rparr>)"
    by simp
  have "['''', ''''] \<noteq> [''''] \<and> take 2 ['''', ''''] \<noteq> receiptHeader"
    by (simp add: receiptHeader_def)
  with empty_pdf_or_header[OF f[of "['''', '''']"], of "\<lambda>s. s" "\<lambda>s. Inr (Some s)"
         "\<lambda>e. ''error''"]
  obtain k where k: "k < 2"
    "?G (\<lambda>url. Inr ['''', '''']) ?st
       = (Inl (InvalidPdfContents k (Tokens ['''', ''''])),
          \<lparr>CACHED_PAGE_CONTENTS = [?url \<mapsto> Tokens ['''', '''']],
            requests = [?url], logged = [(''getClassSchedules'', True, ''error'')]\<rparr>)"
    by auto
  have "fst (?G (\<lambda>url. Inr ['''', '''']) ?st) = Inl (InvalidPdfContents 1 (Tokens ['''', '''']))"
    by (simp add: getClassSchedules_def fetchPdfContents_def cached_def thenP_def
          getClassSchedules_then_def at_def receiptHeader_def catchTrack_def)
  with k have 2: "?G (\<lambda>url. Inr ['''', '''']) ?st
       = (Inl (InvalidPdfContents 1 (Tokens ['''', ''''])),
          \<lparr>CACHED_PAGE_CONTENTS = [?url \<mapsto> Tokens ['''', '''']],
            requests = [?url], logged = [(''getClassSchedules'', True, ''error'')]\<rparr>)"
    by simp
  from 1 2 show ?thesis by simp
qed

section \<open>Lemmas about the passed courses\<close>

lemma uniq_fold:
  "set (foldl (\<lambda>seen x. if x \<in> set seen then seen else seen @ [x]) acc xs) = set acc \<union> set xs
   \<and> (distinct acc \<longrightarrow>
        distinct (foldl (\<lambda>seen x. if x \<in> set seen then seen else seen @ [x]) acc xs))"
  by (induction xs arbitrary: acc) auto

lemma set_uniq: "set (uniq xs) = set xs"
  using uniq_fold[of "[]" xs] by (simp add: uniq_def)


lemma getPassedCourses_resolves:
  "(fst (getPassedCourses page stringifyError ajax st) = Inr pc)
     = (\<exists>h. fst (parseAcademicHistory page ajax st) = Inr h \<and> pc = getPassedCourses_then h)"
proof (cases "parseAcademicHistory page ajax st")
  case (Pair p st')
  then show ?thesis
    by (cases p) (auto simp: getPassedCourses_def thenP_def catchTrack_def)
qed

lemma siga_getPassedCourses_resolves:
  "(fst (siga_getPassedCourses histRows stringifyError ajax st) = Inr pc)
     = (\<exists>responseText rows. fst (getPageContents ajax ''/alu/hist.do'' st) = Inr responseText
          \<and> histRows responseText = Inr rows \<and> pc = siga_passedCoursesOfRows rows)"
proof (cases "getPageContents ajax ''/alu/hist.do'' st")
  case (Pair p st')
  show ?thesis
  proof (cases p)
    case (Inl e)
    with Pair show ?thesis
      by (simp add: siga_getPassedCourses_def thenP_def catchTrack_def)
  next
    case (Inr responseText)
    with Pair show ?thesis
      by (cases "histRows responseText")
        (auto simp: siga_getPassedCourses_def siga_getPassedCourses_then_def thenP_def
           catchTrack_def)
  qed
qed

lemma history_passed_in_signed:
  "set (passed (getPassedCourses_then h)) \<subseteq> set (signed (getPassedCourses_then h))"
  by (auto simp: getPassedCourses_then_def Let_def set_uniq)

lemma rows_passed_in_signed:
  "set (passed (siga_passedCoursesOfRows rows))
     \<subseteq> set (signed (siga_passedCoursesOfRows rows))"
  by (auto simp: siga_passedCoursesOfRows_def Let_def set_uniq)

section \<open>Claims about the passed courses\<close>

text \<open>
  C1. Whenever \<open>getPassedCourses\<close> resolves, in the transcript parser and in the portal
  parser, every course code of \<open>passed\<close> is a course code of \<open>signed\<close>.
\<close>

theorem passed_subset_signed:
  "(fst (getPassedCourses page stringifyError ajax st) = Inr pc
      \<longrightarrow> set (passed pc) \<subseteq> set (signed pc))
   \<and> (fst (siga_getPassedCourses histRows stringifyError' ajax' st') = Inr pc'
      \<longrightarrow> set (passed pc') \<subseteq> set (signed pc'))"
  using history_passed_in_signed rows_passed_in_signed
  by (auto simp: getPassedCourses_resolves siga_getPassedCourses_resolves)

theorem passed_subset_signed_witness:
  "fst (getPassedCourses exampleHistoryPage (\<lambda>e. ''error'') (\<lambda>url. Inr ''json'') emptyState)
     = Inr \<lparr>passed = [''950701'', ''950701''], signed = [''950701'', ''950702'']\<rparr>
   \<and> fst (siga_getPassedCourses (\<lambda>responseText. Inr exampleHistRows) (\<lambda>e. ''error'')
            (\<lambda>url. Inr ''html'') emptyState)
     = Inr \<lparr>passed = [''950701'', ''950701''], signed = [''950701'', ''950702'']\<rparr>
   \<and> set [''950701'', ''950701''] \<subseteq> set [''950701'', ''950702'']"
proof -
  let ?pc = "\<lparr>passed = [''950701'', ''950701''], signed = [''950701'', ''950702'']\<rparr>"
  have a: "fst (getPassedCourses exampleHistoryPage (\<lambda>e. ''error'') (\<lambda>url. Inr ''json'')
                  emptyState) = Inr ?pc"
    by code_simp
  have b: "fst (siga_getPassedCourses (\<lambda>responseText. Inr exampleHistRows) (\<lambda>e. ''error'')
                  (\<lambda>url. Inr ''html'') emptyState) = Inr ?pc"
    by code_simp
  have "fst (getPassedCourses exampleHistoryPage (\<lambda>e. ''error'') (\<lambda>url. Inr ''json'')
               emptyState) = Inr ?pc
          \<longrightarrow> set (passed ?pc) \<subseteq> set (signed ?pc)"
    using passed_subset_signed[where page = exampleHistoryPage and st = emptyState
            and pc = ?pc and stringifyError = "\<lambda>e. ''error''"
            and ajax = "\<lambda>url. Inr ''json''"
            and histRows = "\<lambda>responseText. Inr exampleHistRows"
            and stringifyError' = "\<lambda>e. ''error''" and ajax' = "\<lambda>url. Inr ''html''"
            and st' = emptyState and pc' = ?pc]
    by (rule conjunct1)
  with a have "set (passed ?pc) \<subseteq> set (signed ?pc)"
    by (rule mp[rotated])
  then have "set [''950701'', ''950701''] \<subseteq> set [''950701'', ''950702'']"
    by simp
  with a b show ?thesis by (intro conjI)
qed




section \<open>Lemmas about the portal parser\<close>

lemma getPageContents_logged:
  "logged (snd (getPageContents ajax url st)) = logged st"
  by (simp add: getPageContents_def Let_def split: option.splits sum.splits)

lemma mapThrowing_Inl:
  "x \<in> set xs \<Longrightarrow> f x = Inl e \<Longrightarrow> \<exists>e'. mapThrowing f xs = Inl e'"
  by (induction xs) (auto split: sum.splits)

lemma mapThrowing_Inr:
  "mapThrowing f xs = Inr ys \<Longrightarrow> map f xs = map Inr ys"
  by (induction xs arbitrary: ys) (auto split: sum.splits)

lemma map_filter_answers:
  assumes "map f xs = map Inr ys"
  shows "List.map_filter (\<lambda>y. y) ys
           = map (\<lambda>x. the (projr (f x))) (filter (\<lambda>x. f x \<noteq> Inr None) xs)"
  using assms
proof (induction xs arbitrary: ys)
  case Nil
  then show ?case by (simp add: List.map_filter_simps)
next
  case (Cons x xs)
  then obtain y ys' where ys: "ys = y # ys'" "f x = Inr y" "map f xs = map Inr ys'"
    by (cases ys) auto
  with Cons.IH[OF ys(3)] show ?case
    by (cases y) (simp_all add: List.map_filter_simps)
qed

lemma answerOfRow_dropped:
  "(answerOfRow toLowerCase jsParseInt isNaN tr = Inr None) = (trim (selectedText tr) = [])"
  by (simp add: answerOfRow_def Let_def)

section \<open>Claims about the portal parser\<close>

text \<open>
  C4 (as amended). In \<open>getStudentId\<close> of the portal parser, let the page be fetched and
  the student id element be empty. The call fails with a \<open>LoggedOutError\<close> exactly when
  the text of the \<open>div\<close> elements of the canvas, white space around it aside, is equal
  to the session-expired text, and then nothing is logged; otherwise (also when that
  text only contains the session-expired text) it fails with a plain \<open>Error\<close> that holds
  the page, and that error is logged under \<open>getStudentId\<close>. The catch tells the two apart
  by \<open>instanceof LoggedOutError\<close>.
\<close>

theorem session_expired_not_logged:
  assumes "fst (getPageContents ajax ''/alu/inscurcomp.do'' st) = Inr responseText"
    and "jq ''div.center p.mask1 span'' responseText = Inr []"
    and "jq ''div.std-canvas div'' responseText = Inr t"
  shows "((\<exists>m. fst (siga_getStudentId jq stringifyError ajax st) = Inl (LoggedOutError m))
            = (trim t = sessionExpired))
       \<and> (\<exists>e. fst (siga_getStudentId jq stringifyError ajax st) = Inl e
              \<and> isLoggedOutError e = (trim t = sessionExpired)
              \<and> logged (snd (siga_getStudentId jq stringifyError ajax st))
                  = (if trim t = sessionExpired then logged st
                     else logged st @ [(''getStudentId'', True, stringifyError e)])
              \<and> (trim t \<noteq> sessionExpired \<longrightarrow>
                    e = Error (''Couldn't get studentId from responseText: '' @ responseText)))"
proof -
  obtain p st' where f: "getPageContents ajax ''/alu/inscurcomp.do'' st = (p, st')"
    by (cases "getPageContents ajax ''/alu/inscurcomp.do'' st")
  with assms(1) have p: "p = Inr responseText" by simp
  from f getPageContents_logged[of ajax "''/alu/inscurcomp.do''" st]
  have l: "logged st' = logged st" by simp
  show ?thesis
  proof (cases "trim t = sessionExpired")
    case True
    with assms(2,3) have "siga_getStudentId_then jq responseText
        = Inl (LoggedOutError ''Couldn't get studentId because the user has been logged out.'')"
      by (simp add: siga_getStudentId_then_def)
    with f p l True show ?thesis
      by (simp add: siga_getStudentId_def thenP_def isLoggedOutError_def)
  next
    case False
    with assms(2,3) have "siga_getStudentId_then jq responseText
        = Inl (Error (''Couldn't get studentId from responseText: '' @ responseText))"
      by (simp add: siga_getStudentId_then_def)
    with f p l False show ?thesis
      by (simp add: siga_getStudentId_def thenP_def isLoggedOutError_def trackError_def)
  qed
qed

theorem session_expired_not_logged_witness:
  "fst (siga_getStudentId expiredPage (\<lambda>e. ''error'') (\<lambda>url. Inr ''html'') emptyState)
     = Inl (LoggedOutError ''Couldn't get studentId because the user has been logged out.'')
   \<and> logged (snd (siga_getStudentId expiredPage (\<lambda>e. ''error'') (\<lambda>url. Inr ''html'')
                     emptyState)) = []
   \<and> fst (siga_getStudentId brokenPage (\<lambda>e. ''error'') (\<lambda>url. Inr ''html'') emptyState)
     = Inl (Error ''Couldn't get studentId from responseText: html'')
   \<and> logged (snd (siga_getStudentId brokenPage (\<lambda>e. ''error'') (\<lambda>url. Inr ''html'')
                     emptyState)) = [(''getStudentId'', True, ''error'')]"
proof -
  let ?X = "siga_getStudentId expiredPage (\<lambda>e. ''error'') (\<lambda>url. Inr ''html'') emptyState"
  let ?B = "siga_getStudentId brokenPage (\<lambda>e. ''error'') (\<lambda>url. Inr ''html'') emptyState"
  have f: "fst (getPageContents (\<lambda>url. Inr ''html'') ''/alu/inscurcomp.do'' emptyState)
             = Inr ''html''"
    by code_simp
  have x: "expiredPage ''div.center p.mask1 span'' ''html'' = Inr []"
    "expiredPage ''div.std-canvas div'' ''html'' = Inr ('' '' @ sessionExpired @ '' '')"
    by (simp_all add: expiredPage_def)
  have b: "brokenPage ''div.center p.mask1 span'' ''html'' = Inr []"
    "brokenPage ''div.std-canvas div'' ''html'' = Inr ''Bienvenido''"
    by (simp_all add: brokenPage_def)
  have tx: "trim ('' '' @ sessionExpired @ '' '') = sessionExpired"
    by code_simp
  have tb: "trim ''Bienvenido'' \<noteq> sessionExpired"
    by code_simp
  have l: "logged (emptyState :: string state) = []"
    by (simp add: emptyState_def)
  note expired = session_expired_not_logged[where jq = expiredPage
      and stringifyError = "\<lambda>e. ''error''", OF f x]
  note broken = session_expired_not_logged[where jq = brokenPage
      and stringifyError = "\<lambda>e. ''error''", OF f b]
  from expired tx l
  obtain e where e: "fst ?X = Inl e" "isLoggedOutError e" "logged (snd ?X) = []"
    by auto
  from expired tx
  obtain m where "fst ?X = Inl (LoggedOutError m)"
    by auto
  moreover have "fst ?X
      = Inl (LoggedOutError ''Couldn't get studentId because the user has been logged out.'')"
    by code_simp
  moreover from broken tb l
  have "fst ?B = Inl (Error ''Couldn't get studentId from responseText: html'')
        \<and> logged (snd ?B) = [(''getStudentId'', True, ''error'')]"
    by auto
  ultimately show ?thesis using e(3) by simp
qed

text \<open>
  The claim as stated fails: a page whose canvas contains the session-expired text
  beside other text is not taken for an expired session. The call fails with the plain
  \<open>Error\<close>, and the failure is logged.
\<close>

theorem expired_text_among_other_text_is_logged:
  "includesStr (sessionExpired @ ''Ingrese nuevamente'') sessionExpired
   \<and> expiredAmongOthersPage ''div.std-canvas div'' ''html''
     = Inr (sessionExpired @ ''Ingrese nuevamente'')
   \<and> fst (siga_getStudentId expiredAmongOthersPage (\<lambda>e. ''error'') (\<lambda>url. Inr ''html'')
            emptyState)
     = Inl (Error ''Couldn't get studentId from responseText: html'')
   \<and> logged (snd (siga_getStudentId expiredAmongOthersPage (\<lambda>e. ''error'')
                     (\<lambda>url. Inr ''html'') emptyState))
     = [(''getStudentId'', True, ''error'')]"
  by code_simp

text \<open>
  C5. In the parser of the answers of a survey, a row whose selected option has a text
  gives one answer: of type \<open>TEXT\<close>, with the value of the text area next to it or
  \<open>null\<close> when that is empty or missing, when the label of the option of value 2 is
  \<open>no opina\<close> (in any case, white space around it aside); of type \<open>PERCENTAGE\<close>, with
  the number that the built-in \<open>parseInt\<close> returns for the selected text or \<open>null\<close> when
  that is \<open>NaN\<close>, when that label ends with \<open>%\<close>; any other label throws, which fails
  the call. The answers of a call that resolves are those of the rows with a selected
  text, in order: a row with none gives no answer. The statement holds whatever the
  built-in functions \<open>toLowerCase\<close>, \<open>parseInt\<close> and \<open>isNaN\<close> are.
\<close>

theorem survey_answer_shapes:
  assumes "trim (selectedText tr) \<noteq> []"
  shows "(trim (toLowerCase (secondOptionText tr)) = ''no opina'' \<longrightarrow>
            answerOfRow toLowerCase jsParseInt isNaN tr
              = Inr (Some \<lparr> question = trim (questionText tr), answerType = ''TEXT'',
                            answerValue =
                              (case textareaVal tr of
                                 None \<Rightarrow> NullValue
                               | Some v \<Rightarrow> if v = [] then NullValue else TextValue v) \<rparr>))
       \<and> (trim (toLowerCase (secondOptionText tr)) \<noteq> ''no opina''
            \<and> endsWith (trim (toLowerCase (secondOptionText tr))) ''%'' \<longrightarrow>
            answerOfRow toLowerCase jsParseInt isNaN tr
              = Inr (Some \<lparr> question = trim (questionText tr), answerType = ''PERCENTAGE'',
                            answerValue =
                              (if isNaN (jsParseInt (trim (selectedText tr))) then NullValue
                               else NumberValue (jsParseInt (trim (selectedText tr)))) \<rparr>))
       \<and> (trim (toLowerCase (secondOptionText tr)) \<noteq> ''no opina''
            \<and> \<not> endsWith (trim (toLowerCase (secondOptionText tr))) ''%'' \<longrightarrow>
            answerOfRow toLowerCase jsParseInt isNaN tr
              = Inl (SecondOptionNotParsed (trim (toLowerCase (secondOptionText tr))))
            \<and> (tr \<in> set rows \<longrightarrow>
                  (\<exists>e. getAnswersFromSurvey_then toLowerCase jsParseInt isNaN rows = Inl e)))
       \<and> (getAnswersFromSurvey_then toLowerCase jsParseInt isNaN rows' = Inr answers \<longrightarrow>
            answers = map (\<lambda>r. the (projr (answerOfRow toLowerCase jsParseInt isNaN r)))
                        (filter (\<lambda>r. trim (selectedText r) \<noteq> []) rows'))"
proof (intro conjI impI)
  assume "trim (toLowerCase (secondOptionText tr)) = ''no opina''"
  with assms show "answerOfRow toLowerCase jsParseInt isNaN tr
      = Inr (Some \<lparr> question = trim (questionText tr), answerType = ''TEXT'',
                    answerValue =
                      (case textareaVal tr of
                         None \<Rightarrow> NullValue
                       | Some v \<Rightarrow> if v = [] then NullValue else TextValue v) \<rparr>)"
    by (simp add: answerOfRow_def Let_def)
next
  assume "trim (toLowerCase (secondOptionText tr)) \<noteq> ''no opina''
            \<and> endsWith (trim (toLowerCase (secondOptionText tr))) ''%''"
  with assms show "answerOfRow toLowerCase jsParseInt isNaN tr
      = Inr (Some \<lparr> question = trim (questionText tr), answerType = ''PERCENTAGE'',
                    answerValue =
                      (if isNaN (jsParseInt (trim (selectedText tr))) then NullValue
                       else NumberValue (jsParseInt (trim (selectedText tr)))) \<rparr>)"
    by (simp add: answerOfRow_def Let_def)
next
  assume a: "trim (toLowerCase (secondOptionText tr)) \<noteq> ''no opina''
            \<and> \<not> endsWith (trim (toLowerCase (secondOptionText tr))) ''%''"
  with assms show t: "answerOfRow toLowerCase jsParseInt isNaN tr
      = Inl (SecondOptionNotParsed (trim (toLowerCase (secondOptionText tr))))"
    by (simp add: answerOfRow_def Let_def)
  assume "tr \<in> set rows"
  from mapThrowing_Inl[of tr rows "answerOfRow toLowerCase jsParseInt isNaN", OF this t]
  show "\<exists>e. getAnswersFromSurvey_then toLowerCase jsParseInt isNaN rows = Inl e"
    by (auto simp: getAnswersFromSurvey_then_def)
next
  assume "getAnswersFromSurvey_then toLowerCase jsParseInt isNaN rows' = Inr answers"
  then obtain ys where ys: "mapThrowing (answerOfRow toLowerCase jsParseInt isNaN) rows' = Inr ys"
    "answers = List.map_filter (\<lambda>y. y) ys"
    by (auto simp: getAnswersFromSurvey_then_def split: sum.splits)
  from map_filter_answers[OF mapThrowing_Inr[OF ys(1)]] ys(2)
  show "answers = map (\<lambda>r. the (projr (answerOfRow toLowerCase jsParseInt isNaN r)))
                    (filter (\<lambda>r. trim (selectedText r) \<noteq> []) rows')"
    by (simp add: answerOfRow_dropped)
qed

theorem survey_answer_shapes_witness:
  "getAnswersFromSurvey_then asciiLower parseInt (\<lambda>n. n = None)
     [\<lparr> questionText = ''Claridad'', selectedText = ''Opina'', secondOptionText = ''No opina'',
        textareaVal = Some '''' \<rparr>,
      \<lparr> questionText = ''Sin responder'', selectedText = '' '', secondOptionText = ''?'',
        textareaVal = None \<rparr>,
      \<lparr> questionText = ''Asistencia'', selectedText = ''75'', secondOptionText = ''50%'',
        textareaVal = None \<rparr>]
     = Inr [\<lparr> question = ''Claridad'', answerType = ''TEXT'', answerValue = NullValue \<rparr>,
            \<lparr> question = ''Asistencia'', answerType = ''PERCENTAGE'',
              answerValue = NumberValue (Some 75) \<rparr>]
   \<and> getAnswersFromSurvey_then asciiLower parseInt (\<lambda>n. n = None)
     [\<lparr> questionText = ''Asistencia'', selectedText = ''75'', secondOptionText = ''Mucho'',
        textareaVal = None \<rparr>]
     = Inl (SecondOptionNotParsed ''mucho'')"
proof -
  let ?t = "\<lparr> questionText = ''Claridad'', selectedText = ''Opina'',
               secondOptionText = ''No opina'', textareaVal = Some '''' \<rparr>"
  let ?d = "\<lparr> questionText = ''Sin responder'', selectedText = '' '',
               secondOptionText = ''?'', textareaVal = None \<rparr>"
  let ?p = "\<lparr> questionText = ''Asistencia'', selectedText = ''75'',
               secondOptionText = ''50%'', textareaVal = None \<rparr>"
  let ?b = "\<lparr> questionText = ''Asistencia'', selectedText = ''75'',
               secondOptionText = ''Mucho'', textareaVal = None \<rparr>"
  have sel: "trim (selectedText ?t) \<noteq> []" "trim (selectedText ?p) \<noteq> []"
    "trim (selectedText ?b) \<noteq> []"
    by code_simp+
  have second: "trim (asciiLower (secondOptionText ?t)) = ''no opina''"
    "trim (asciiLower (secondOptionText ?p)) \<noteq> ''no opina''
       \<and> endsWith (trim (asciiLower (secondOptionText ?p))) ''%''"
    "trim (asciiLower (secondOptionText ?b)) \<noteq> ''no opina''
       \<and> \<not> endsWith (trim (asciiLower (secondOptionText ?b))) ''%''"
    by code_simp+
  have vals: "parseInt (trim (selectedText ?p)) = Some 75"
    "trim (asciiLower (secondOptionText ?b)) = ''mucho''"
    "trim (questionText ?t) = ''Claridad''" "trim (questionText ?p) = ''Asistencia''"
    by code_simp+
  have t: "answerOfRow asciiLower parseInt (\<lambda>n. n = None) ?t
             = Inr (Some \<lparr> question = ''Claridad'', answerType = ''TEXT'',
                           answerValue = NullValue \<rparr>)"
    using survey_answer_shapes[where toLowerCase = asciiLower and jsParseInt = parseInt
            and isNaN = "\<lambda>n. n = None", OF sel(1)] second(1) vals by simp
  have p: "answerOfRow asciiLower parseInt (\<lambda>n. n = None) ?p
             = Inr (Some \<lparr> question = ''Asistencia'', answerType = ''PERCENTAGE'',
                           answerValue = NumberValue (Some 75) \<rparr>)"
    using survey_answer_shapes[where toLowerCase = asciiLower and jsParseInt = parseInt
            and isNaN = "\<lambda>n. n = None", OF sel(2)] second(2) vals by simp
  have b: "answerOfRow asciiLower parseInt (\<lambda>n. n = None) ?b = Inl (SecondOptionNotParsed ''mucho'')"
    using survey_answer_shapes[where toLowerCase = asciiLower and jsParseInt = parseInt
            and isNaN = "\<lambda>n. n = None", OF sel(3)] second(3) vals by simp
  have d: "answerOfRow asciiLower parseInt (\<lambda>n. n = None) ?d = Inr None"
    by code_simp
  from t p d have 1: "getAnswersFromSurvey_then asciiLower parseInt (\<lambda>n. n = None) [?t, ?d, ?p]
      = Inr [\<lparr> question = ''Claridad'', answerType = ''TEXT'', answerValue = NullValue \<rparr>,
             \<lparr> question = ''Asistencia'', answerType = ''PERCENTAGE'',
               answerValue = NumberValue (Some 75) \<rparr>]"
    by (simp add: getAnswersFromSurvey_then_def List.map_filter_simps)
  from b have 2: "getAnswersFromSurvey_then asciiLower parseInt (\<lambda>n. n = None) [?b]
      = Inl (SecondOptionNotParsed ''mucho'')"
    by (simp add: getAnswersFromSurvey_then_def)
  from 1 2 show ?thesis by simp
qed

section \<open>The fetch cache\<close>

lemma getPageContents_memo:
  assumes "getPageContents ajax url st = (Inr responseText, st')" and "responseText \<noteq> []"
  shows "getPageContents ajax' url st' = (Inr responseText, st')"
  using assms
  by (auto simp: getPageContents_def Let_def split: option.splits if_splits sum.splits)

lemma getPageContents_other_url:
  "url' \<noteq> url \<Longrightarrow>
     CACHED_PAGE_CONTENTS (snd (getPageContents ajax url st)) url' = CACHED_PAGE_CONTENTS st url'"
  by (auto simp: getPageContents_def Let_def split: option.splits if_splits sum.splits)

lemma fetchPdfContents_memo:
  assumes "fetchPdfContents getDocument url st = (Inr c, st')"
  shows "fetchPdfContents getDocument' url st' = (Inr c, st')"
  using assms
  by (auto simp: fetchPdfContents_def cached_def truthy_def Let_def
        split: option.splits if_splits sum.splits content.splits)

text \<open>
  C8. The cache tests an entry for truthiness, and the empty string is falsy: a page
  whose content is the empty string is stored and then requested again. Below, the
  first fetch of a url resolves with the empty string; the second fetch of the same url
  sends a second request and resolves with what the network answers then, in the portal
  parser and in the transcript parser alike.
\<close>

theorem empty_page_is_fetched_again:
  "(case getPageContents (\<lambda>url. Inr '''') ''/alu/hist.do'' emptyState of
      (first, st1) \<Rightarrow>
        (case getPageContents (\<lambda>url. Inr ''<html>'') ''/alu/hist.do'' st1 of
           (second, st2) \<Rightarrow>
             first = Inr '''' \<and> CACHED_PAGE_CONTENTS st1 ''/alu/hist.do'' = Some ''''
             \<and> second = Inr ''<html>''
             \<and> requests st2 = [''/alu/hist.do'', ''/alu/hist.do'']))
   \<and> (case fetchPageContents (\<lambda>url. Inr '''') ''/autogestion/grado/plan_estudio'' emptyState of
      (first, st1) \<Rightarrow>
        (case fetchPageContents (\<lambda>url. Inr ''{}'') ''/autogestion/grado/plan_estudio'' st1 of
           (second, st2) \<Rightarrow>
             first = Inr (Text '''')
             \<and> CACHED_PAGE_CONTENTS st1 ''/autogestion/grado/plan_estudio'' = Some (Text '''')
             \<and> second = Inr (Text ''{}'')
             \<and> requests st2
                 = [''/autogestion/grado/plan_estudio'', ''/autogestion/grado/plan_estudio'']))"
  by (simp add: getPageContents_def fetchPageContents_def cached_def truthy_def emptyState_def)

section \<open>The propagation of failures\<close>













end
